theory Spec2Isabelle
  imports Main
begin

section \<open>Configuration and host values\<close>

text \<open>
  The script \<^verbatim>\<open>urlbar.uc.js\<close> is a single class \<^verbatim>\<open>PanelManager\<close> plus a few
  initialisation functions. Host services (\<^verbatim>\<open>AddonManager\<close>, \<^verbatim>\<open>WebExtensionPolicy\<close>,
  \<^verbatim>\<open>gUnifiedExtensions\<close>, \<^verbatim>\<open>Services\<close>, \<^verbatim>\<open>gBrowser\<close>) are not part of the script: what
  they answer is a parameter of the model, and a host call that throws is the value
  \<open>Inl e\<close>.
\<close>

definition FALLBACK_ICON :: string where
  "FALLBACK_ICON = ''chrome://mozapps/skin/extensions/extension.svg''"

datatype error = HostError | TypeError

text \<open>
  An add-on object as the script reads it: \<^verbatim>\<open>id\<close>, \<^verbatim>\<open>name\<close>, \<^verbatim>\<open>iconURL\<close> (\<open>None\<close> when
  it is null or not a string), \<^verbatim>\<open>isActive\<close>, \<^verbatim>\<open>isSystem\<close>, \<^verbatim>\<open>optionsUrl\<close>, and whether
  \<^verbatim>\<open>uninstall\<close> and \<^verbatim>\<open>remove\<close> are functions.
\<close>

record addon =
  addon_id :: string
  addon_name :: string
  iconURL :: "string option"
  isActive :: bool
  isSystem :: bool
  optionsUrl :: "string option"
  has_uninstall :: bool
  has_remove :: bool

text \<open>
  \<^verbatim>\<open>WebExtensionPolicy.getByID(id)\<close> and \<^verbatim>\<open>gUnifiedExtensions.browserActionFor(policy)\<close>:
  \<open>Inr True\<close> when an object comes back, \<open>Inr False\<close> when the answer is null,
  \<open>Inl e\<close> when the call throws.
\<close>

record ext_host =
  getByID :: "string \<Rightarrow> error + bool"
  browserActionFor :: "string \<Rightarrow> error + bool"

section \<open>Rendered extension entries\<close>

text \<open>
  The \<^verbatim>\<open>image.extension-icon\<close> element with the three attributes the script writes;
  \<open>enabled\<close> holds the text of \<^verbatim>\<open>isActive.toString()\<close>. The constant \<^verbatim>\<open>style\<close> and
  \<^verbatim>\<open>class\<close> attributes are not modelled.
\<close>

record image =
  src :: string
  tooltiptext :: string
  enabled :: string

text \<open>
  A child of \<^verbatim>\<open>#extension-container\<close>: a wrapper \<^verbatim>\<open>div\<close> carrying
  \<^verbatim>\<open>data-extension-id\<close> with its icon (if it has one), or any other node, such as the
  \<^verbatim>\<open>add-extension-button\<close> image of the panel template.
\<close>

datatype node = Other string | Wrapper string "image option"

fun data_extension_id :: "node \<Rightarrow> string option" where
  "data_extension_id (Other _) = None"
| "data_extension_id (Wrapper i _) = Some i"

text \<open>The ids read off \<^verbatim>\<open>container.querySelectorAll("[data-extension-id]")\<close>, in document order.\<close>

fun rendered_ids :: "node list \<Rightarrow> string list" where
  "rendered_ids [] = []"
| "rendered_ids (Other _ # c) = rendered_ids c"
| "rendered_ids (Wrapper i _ # c) = i # rendered_ids c"

text \<open>
  \<^verbatim>\<open>container.querySelector(`[data-extension-id="${extensionId}"]`)\<close>: the position of the
  first node carrying that id, \<open>None\<close> for null. Add-on ids contain neither quotes nor
  backslashes, so the selector matches by equality of the attribute value.
\<close>

fun querySelector_ext :: "node list \<Rightarrow> string \<Rightarrow> nat option" where
  "querySelector_ext [] x = None"
| "querySelector_ext (n # c) x =
     (if data_extension_id n = Some x then Some 0
      else map_option Suc (querySelector_ext c x))"

definition bool_toString :: "bool \<Rightarrow> string" where
  "bool_toString b = (if b then ''true'' else ''false'')"

definition getExtensionIconSrc :: "addon \<Rightarrow> string" where
  "getExtensionIconSrc a =
     (case iconURL a of
        Some u \<Rightarrow> if u \<noteq> [] then u else FALLBACK_ICON
      | None \<Rightarrow> FALLBACK_ICON)"

text \<open>
  \<^verbatim>\<open>getExtensionTooltip\<close>: the lookup of the browser action sits in a try block whose
  catch falls through to the enable/disable text.
\<close>

definition getExtensionTooltip :: "ext_host \<Rightarrow> addon \<Rightarrow> string" where
  "getExtensionTooltip h a =
     (let extensionName = (if addon_name a = [] then ''Extension'' else addon_name a) in
      if isActive a \<and> getByID h (addon_id a) = Inr True
           \<and> browserActionFor h (addon_id a) = Inr True
      then ''Open '' @ extensionName
      else if isActive a then ''Disable '' @ extensionName
      else ''Enable '' @ extensionName)"

definition createExtensionImage :: "ext_host \<Rightarrow> addon \<Rightarrow> image" where
  "createExtensionImage h a =
     \<lparr> src = getExtensionIconSrc a,
       tooltiptext = getExtensionTooltip h a,
       enabled = bool_toString (isActive a) \<rparr>"

definition createExtensionWrapper :: "addon \<Rightarrow> image \<Rightarrow> node" where
  "createExtensionWrapper a img = Wrapper (addon_id a) (Some img)"

text \<open>\<^verbatim>\<open>container.insertBefore(wrapper, container.firstChild)\<close>.\<close>

definition addNewExtension :: "ext_host \<Rightarrow> node list \<Rightarrow> addon \<Rightarrow> node list" where
  "addNewExtension h c a = createExtensionWrapper a (createExtensionImage h a) # c"

fun updateExistingExtension :: "ext_host \<Rightarrow> node \<Rightarrow> addon \<Rightarrow> node" where
  "updateExistingExtension h (Wrapper i (Some img)) a =
     Wrapper i (Some (img\<lparr> enabled := bool_toString (isActive a),
                           tooltiptext := getExtensionTooltip h a,
                           src := (if src img \<noteq> getExtensionIconSrc a
                                   then getExtensionIconSrc a else src img) \<rparr>))"
| "updateExistingExtension h (Wrapper i None) a = Wrapper i None"
| "updateExistingExtension h (Other t) a = Other t"

text \<open>
  The record kept in the map \<^verbatim>\<open>this.extensionData\<close> (written by the pass, read nowhere
  in the script).
\<close>

record ext_record =
  rec_id :: string
  rec_name :: string
  rec_iconURL :: "string option"

text \<open>The body of the \<^verbatim>\<open>for (const addon of userExtensions)\<close> loop of \<^verbatim>\<open>processExtensions\<close>.\<close>

fun process_loop ::
  "ext_host \<Rightarrow> node list \<Rightarrow> (string \<rightharpoonup> ext_record) \<Rightarrow> addon list
     \<Rightarrow> node list \<times> (string \<rightharpoonup> ext_record)" where
  "process_loop h c d [] = (c, d)"
| "process_loop h c d (a # as) =
     process_loop h
       (case querySelector_ext c (addon_id a) of
          Some k \<Rightarrow> c[k := updateExistingExtension h (c ! k) a]
        | None \<Rightarrow> addNewExtension h c a)
       (d(addon_id a \<mapsto> \<lparr> rec_id = addon_id a, rec_name = addon_name a,
                            rec_iconURL = iconURL a \<rparr>))
       as"

text \<open>
  \<^verbatim>\<open>removeUninstalledExtensions\<close>: a tagged node goes when its id is a non-empty string
  that no current add-on has (\<^verbatim>\<open>if (id && !currentExtensionIds.has(id))\<close>).
\<close>

definition removeUninstalledExtensions :: "node list \<Rightarrow> addon list \<Rightarrow> node list" where
  "removeUninstalledExtensions c userExtensions =
     filter (\<lambda>n. case data_extension_id n of
                    None \<Rightarrow> True
                  | Some i \<Rightarrow> \<not> (i \<noteq> [] \<and> i \<notin> set (map addon_id userExtensions))) c"

definition processExtensions ::
  "ext_host \<Rightarrow> node list \<Rightarrow> addon list \<Rightarrow> node list \<times> (string \<rightharpoonup> ext_record)" where
  "processExtensions h c userExtensions =
     (case process_loop h c Map.empty userExtensions of
        (c', d) \<Rightarrow> (removeUninstalledExtensions c' userExtensions, d))"

text \<open>The container as \<^verbatim>\<open>generatePanelXUL\<close> builds it: only the store button.\<close>

definition initial_container :: "node list" where
  "initial_container = [Other ''add-extension-button'']"

text \<open>
  What earlier passes leave behind for add-ons with non-empty ids: no id is rendered
  twice and no rendered id is the empty string.
\<close>

definition rendered_wf :: "node list \<Rightarrow> bool" where
  "rendered_wf c \<longleftrightarrow> distinct (rendered_ids c) \<and> [] \<notin> set (rendered_ids c)"


section \<open>The page, the window and the panel manager\<close>

text \<open>
  What the browser window offers at the time of a call: whether \<^verbatim>\<open>#mainPopupSet\<close> is in
  the document, the \<^verbatim>\<open>identity-permission-box\<close> element with its two attributes (if it is
  there), and \<^verbatim>\<open>gBrowser.currentURI\<close> (\<open>None\<close> for null). Reading \<^verbatim>\<open>host\<close> throws for a URI
  that has none.
\<close>

record identity_box =
  hasSharingIcon :: bool
  hasPermissions :: bool

record uri =
  scheme :: string
  host :: "error + string"

record page =
  has_mainPopupSet :: bool
  identityPermissionBox :: "identity_box option"
  currentURI :: "uri option"

datatype log_entry = LogInfo string | LogError string

text \<open>
  \<^verbatim>\<open>updateSecurityStatus\<close>. The argument is the \<^verbatim>\<open>#page-secutity-status-image\<close> element:
  \<open>None\<close> when the document has none, otherwise its \<^verbatim>\<open>src\<close> attribute (\<open>None\<close> while
  unset). The result is the element afterwards and the line written to the console.
\<close>

definition updateSecurityStatus ::
  "page \<Rightarrow> string option option \<Rightarrow> string option option \<times> log_entry" where
  "updateSecurityStatus pg securityImage =
     (case securityImage of
        None \<Rightarrow> (None, LogInfo ''Security status image not found'')
      | Some old \<Rightarrow>
          (case identityPermissionBox pg of
             None \<Rightarrow> (Some old, LogInfo ''Identity permission box not found'')
           | Some box \<Rightarrow>
               (let iconSrc =
                  (if hasSharingIcon box then ''chrome://browser/skin/zen-icons/shield-check.svg''
                   else if hasPermissions box
                     then ''chrome://browser/skin/zen-icons/shield-exclamation.svg''
                   else
                     (case currentURI pg of
                        Some u \<Rightarrow>
                          if scheme u = ''https''
                            then ''chrome://browser/skin/zen-icons/security.svg''
                          else if scheme u = ''http''
                            then ''chrome://browser/skin/zen-icons/lock-open.svg''
                          else ''chrome://browser/skin/zen-icons/info.svg''
                      | None \<Rightarrow> ''chrome://browser/skin/zen-icons/info.svg''))
                in (Some (Some iconSrc),
                    LogInfo (''Security status updated with icon: '' @ iconSrc)))))"

text \<open>
  Host calls that change something outside the script, in the order they are made. A call
  is recorded when it is made, whether it returns or throws. The last three entries are
  the summary lines that \<^verbatim>\<open>clearCookies\<close> writes to the console, with the counts they
  print.
\<close>

datatype effect =
    LoadURI string
  | AddTab string
  | OpenPopup string
  | Enable string
  | Disable string
  | Uninstall string
  | TogglePinned string
  | SetPinned string bool
  | PurgeSessionHistory
  | ClearCache
  | Reload
  | ImportCookieManager
  | PrimaryGetCookies string
  | PrimaryRemove string
  | FallbackGetCookies string
  | RemoveAllFromHost string
  | FallbackRemove string
  | LogPrimaryDone string nat
  | LogClearedAll string
  | LogFallbackDone string nat nat

datatype event_type = PointerDown | KeyDown

text \<open>The part of the panel markup that the script rewrites after building it.\<close>

record panel_dom =
  container :: "node list"
  security_src :: "string option"

text \<open>
  The fields of \<^verbatim>\<open>PanelManager\<close> (an element reference is \<open>True\<close> or \<open>Some\<close> when it is
  not null; a bound listener is the identity of its closure), followed by what the script
  has put into the window, the document and the host:
  the capture-phase listeners it has on \<^verbatim>\<open>window\<close>, the panel markup in the document, whether
  the panel popup is showing, the shared \<^verbatim>\<open>#extension-context-menu\<close> (\<open>None\<close>: not created,
  \<open>Some b\<close>: created, showing iff \<open>b\<close>), the add-ons the \<^verbatim>\<open>AddonManager\<close> has, the number
  of add-on listeners registered with it, and the host calls made so far.
\<close>

record world =
  panel :: bool
  isOpen :: bool
  extensionData :: "string \<rightharpoonup> ext_record"
  addonListener :: bool
  extrasMenuListenersSetup :: bool
  extensionMenuListenersSetup :: bool
  currentContextMenu :: bool
  currentContextMenuExtensionId :: "string option"
  boundOnGlobalPointerDown :: "nat option"
  boundOnGlobalKeyDown :: "nat option"
  lastAnchorButton :: "string option"
  window_listeners :: "(event_type \<times> nat) list"
  next_closure :: nat
  document_panel :: "panel_dom option"
  popup_open :: bool
  extension_menu :: "bool option"
  addons :: "addon list"
  addon_listeners :: nat
  effects :: "effect list"

text \<open>The state after \<^verbatim>\<open>new PanelManager()\<close> in a window whose host has the add-ons \<open>as\<close>.\<close>

definition initial_world :: "addon list \<Rightarrow> world" where
  "initial_world as =
     \<lparr> panel = False, isOpen = False, extensionData = Map.empty, addonListener = False,
       extrasMenuListenersSetup = False, extensionMenuListenersSetup = False,
       currentContextMenu = False, currentContextMenuExtensionId = None,
       boundOnGlobalPointerDown = None, boundOnGlobalKeyDown = None,
       lastAnchorButton = None, window_listeners = [], next_closure = 0,
       document_panel = None, popup_open = False, extension_menu = None,
       addons = as, addon_listeners = 0, effects = [] \<rparr>"

definition call :: "effect \<Rightarrow> world \<Rightarrow> world" where
  "call e w = w\<lparr> effects := effects w @ [e] \<rparr>"

subsection \<open>Showing and hiding the panel\<close>

text \<open>
  \<^verbatim>\<open>createPanel\<close>: an existing panel is taken out of the document first; without
  \<^verbatim>\<open>#mainPopupSet\<close> nothing is built and \<^verbatim>\<open>this.panel\<close> stays null.
\<close>

definition createPanel :: "page \<Rightarrow> world \<Rightarrow> world" where
  "createPanel pg w =
     (let w1 = w\<lparr> document_panel := None \<rparr> in
      if \<not> has_mainPopupSet pg then w1
      else w1\<lparr> document_panel := Some \<lparr> container = initial_container, security_src = None \<rparr>,
               panel := True \<rparr>)"

definition setupAddonListenerIfNeeded :: "world \<Rightarrow> world" where
  "setupAddonListenerIfNeeded w =
     (if \<not> addonListener w
      then w\<lparr> addonListener := True, addon_listeners := addon_listeners w + 1 \<rparr>
      else w)"

text \<open>
  \<^verbatim>\<open>addPanelGlobalHandlers\<close>: two fresh closures, registered on \<^verbatim>\<open>window\<close> for
  \<^verbatim>\<open>pointerdown\<close> and \<^verbatim>\<open>keydown\<close>, unless one is bound already.
\<close>

definition addPanelGlobalHandlers :: "world \<Rightarrow> world" where
  "addPanelGlobalHandlers w =
     (if boundOnGlobalPointerDown w \<noteq> None \<or> boundOnGlobalKeyDown w \<noteq> None then w
      else w\<lparr> boundOnGlobalPointerDown := Some (next_closure w),
               boundOnGlobalKeyDown := Some (next_closure w + 1),
               window_listeners := window_listeners w
                  @ [(PointerDown, next_closure w), (KeyDown, next_closure w + 1)],
               next_closure := next_closure w + 2 \<rparr>)"

definition removePanelGlobalHandlers :: "world \<Rightarrow> world" where
  "removePanelGlobalHandlers w =
     (let w1 = (case boundOnGlobalPointerDown w of
                  Some l \<Rightarrow> w\<lparr> window_listeners := remove1 (PointerDown, l) (window_listeners w),
                               boundOnGlobalPointerDown := None \<rparr>
                | None \<Rightarrow> w)
      in case boundOnGlobalKeyDown w1 of
           Some l \<Rightarrow> w1\<lparr> window_listeners := remove1 (KeyDown, l) (window_listeners w1),
                         boundOnGlobalKeyDown := None \<rparr>
         | None \<Rightarrow> w1)"

definition hidePanel :: "world \<Rightarrow> world" where
  "hidePanel w =
     (if panel w \<and> isOpen w
      then removePanelGlobalHandlers (w\<lparr> popup_open := False, isOpen := False \<rparr>)
      else w)"

text \<open>The call of \<^verbatim>\<open>updateSecurityStatus\<close> on the document the world holds.\<close>

definition refreshSecurityStatus :: "page \<Rightarrow> world \<Rightarrow> world" where
  "refreshSecurityStatus pg w =
     (case document_panel w of
        None \<Rightarrow> w
      | Some p \<Rightarrow>
          (case fst (updateSecurityStatus pg (Some (security_src p))) of
             Some s \<Rightarrow> w\<lparr> document_panel := Some (p\<lparr> security_src := s \<rparr>) \<rparr>
           | None \<Rightarrow> w))"

text \<open>
  \<^verbatim>\<open>showPanel\<close>. The call \<^verbatim>\<open>this.loadExtensions()\<close> in it only starts the asynchronous
  refresh: the pass itself runs after \<^verbatim>\<open>showPanel\<close> has returned and is the transition
  \<open>loadExtensions\<close> below.
\<close>

definition showPanel :: "page \<Rightarrow> string option \<Rightarrow> world \<Rightarrow> world" where
  "showPanel pg targetButton w =
     (let w1 = (if \<not> panel w then createPanel pg w else w) in
      if panel w1 \<and> targetButton \<noteq> None
      then addPanelGlobalHandlers
             ((refreshSecurityStatus pg (setupAddonListenerIfNeeded w1))
                \<lparr> popup_open := True, isOpen := True, lastAnchorButton := targetButton \<rparr>)
      else w1)"

definition togglePanel :: "page \<Rightarrow> string option \<Rightarrow> world \<Rightarrow> world" where
  "togglePanel pg targetButton w =
     (if isOpen w then hidePanel w else showPanel pg targetButton w)"

text \<open>
  \<^verbatim>\<open>loadExtensions\<close> after its await: the non-system add-ons are reconciled into
  \<^verbatim>\<open>#extension-container\<close>, if the document has one.
\<close>

definition loadExtensions :: "ext_host \<Rightarrow> world \<Rightarrow> world" where
  "loadExtensions h w =
     (let userExtensions = filter (\<lambda>a. \<not> isSystem a) (addons w) in
      case document_panel w of
        None \<Rightarrow> w
      | Some p \<Rightarrow>
          (case processExtensions h (container p) userExtensions of
             (c', d) \<Rightarrow> w\<lparr> extensionData := d,
                           document_panel := Some (p\<lparr> container := c' \<rparr>) \<rparr>))"

text \<open>Calls made on the panel manager from outside, and a run of them.\<close>

datatype panel_call =
    ShowPanel page "string option"
  | HidePanel
  | TogglePanel page "string option"

fun panel_step :: "world \<Rightarrow> panel_call \<Rightarrow> world" where
  "panel_step w (ShowPanel pg b) = showPanel pg b w"
| "panel_step w HidePanel = hidePanel w"
| "panel_step w (TogglePanel pg b) = togglePanel pg b w"

definition run_panel :: "panel_call list \<Rightarrow> world \<Rightarrow> world" where
  "run_panel cs w = foldl panel_step w cs"

text \<open>
  The state of the dismissal listeners: the two bound closures are exactly the script's
  listeners on the window, or nothing is bound and nothing is registered.
\<close>

definition handlers_registered :: "world \<Rightarrow> bool" where
  "handlers_registered w \<longleftrightarrow>
     boundOnGlobalPointerDown w \<noteq> None \<and> boundOnGlobalKeyDown w \<noteq> None
       \<and> window_listeners w = [(PointerDown, the (boundOnGlobalPointerDown w)),
                                 (KeyDown, the (boundOnGlobalKeyDown w))]"

definition handlers_absent :: "world \<Rightarrow> bool" where
  "handlers_absent w \<longleftrightarrow>
     boundOnGlobalPointerDown w = None \<and> boundOnGlobalKeyDown w = None
       \<and> window_listeners w = []"

text \<open>
  The invariant of the panel state: open means the panel exists, an anchor is recorded and
  the handlers are registered; closed means no handler is left.
\<close>

definition panel_inv :: "world \<Rightarrow> bool" where
  "panel_inv w =
     (if isOpen w then panel w \<and> lastAnchorButton w \<noteq> None \<and> handlers_registered w
      else handlers_absent w)"

subsection \<open>The extension context menu and cleanup\<close>

definition setupExtensionMenuListeners :: "world \<Rightarrow> world" where
  "setupExtensionMenuListeners w =
     (if extension_menu w = None then w else w\<lparr> extensionMenuListenersSetup := True \<rparr>)"

text \<open>
  \<^verbatim>\<open>showExtensionContextMenu\<close>: without \<^verbatim>\<open>#mainPopupSet\<close> there is no menu and nothing
  happens; otherwise the menu is created if it is not there yet, the extension id is
  recorded, the item listeners are wired once, and the menu is opened.
\<close>

definition showExtensionContextMenu :: "page \<Rightarrow> string \<Rightarrow> world \<Rightarrow> world" where
  "showExtensionContextMenu pg extensionId w =
     (if \<not> has_mainPopupSet pg then w
      else
        (let w1 = (if extension_menu w = None then w\<lparr> extension_menu := Some False \<rparr> else w);
             w2 = w1\<lparr> currentContextMenuExtensionId := Some extensionId \<rparr>;
             w3 = (if \<not> extensionMenuListenersSetup w2
                   then setupExtensionMenuListeners w2 else w2)
         in w3\<lparr> extension_menu := Some True, currentContextMenu := True \<rparr>))"

definition hideExtensionContextMenu :: "world \<Rightarrow> world" where
  "hideExtensionContextMenu w =
     w\<lparr> extension_menu := map_option (\<lambda>_. False) (extension_menu w),
        currentContextMenu := False,
        currentContextMenuExtensionId := None \<rparr>"

text \<open>\<^verbatim>\<open>cleanup\<close>, which the window's \<^verbatim>\<open>unload\<close> listener calls.\<close>

definition cleanup :: "world \<Rightarrow> world" where
  "cleanup w =
     (let w1 = (if addonListener w
                then w\<lparr> addon_listeners := addon_listeners w - 1, addonListener := False \<rparr>
                else w)
      in (hideExtensionContextMenu w1)\<lparr> extrasMenuListenersSetup := False \<rparr>)"

section \<open>Action handlers\<close>

text \<open>
  The answers of the host to the calls the handlers make. A call is taken to be able to
  throw where the script wraps it in a try block, and so is \<^verbatim>\<open>UC_API.Utils.loadURI\<close>, which
  \<^verbatim>\<open>openExtensionsPage\<close> calls outside any try block.
  \<^item> \<open>ext\<close>: the policy and browser-action lookups;
  \<^item> \<open>lookup_throws\<close>: an awaited \<^verbatim>\<open>AddonManager.getAddonByID\<close> rejects;
  \<^item> \<open>live_addon_objects\<close>: the add-on object the host hands out reads \<^verbatim>\<open>isActive\<close> from
    the add-on's current state (as the wrapper objects of the \<^verbatim>\<open>AddonManager\<close> do), rather
    than being a copy taken at lookup time;
  \<^item> \<open>own_addon_properties\<close>: \<^verbatim>\<open>id\<close>, \<^verbatim>\<open>name\<close> and the other properties are own enumerable
    properties of the add-on object, so that an object spread copies them; on the wrapper
    objects of the \<^verbatim>\<open>AddonManager\<close> they are getters of the prototype and a spread copies
    none of them;
  \<^item> \<open>set_enabled\<close>: \<^verbatim>\<open>addon.enable()\<close> or \<^verbatim>\<open>addon.disable()\<close>;
  \<^item> \<open>openPopup\<close>: \<^verbatim>\<open>action.openPopup(window, true)\<close>;
  \<^item> \<open>addTab\<close>: \<^verbatim>\<open>gBrowser.addTab\<close> with the system principal, and selecting the tab;
  \<^item> \<open>confirm\<close>: the answer to \<^verbatim>\<open>Services.prompt.confirm\<close>;
  \<^item> \<open>uninstall\<close>: \<^verbatim>\<open>addon.uninstall()\<close> or \<^verbatim>\<open>addon.remove()\<close>;
  \<^item> \<open>loadURI_available\<close>: \<^verbatim>\<open>UC_API.Utils.loadURI\<close> exists; \<open>loadURI\<close>: the call of it;
  \<^item> \<open>notifyObservers\<close>, \<open>has_cache2\<close>, \<open>cache_clear\<close>: the calls of \<^verbatim>\<open>clearCache\<close>.
\<close>

record host_calls =
  ext :: ext_host
  lookup_throws :: bool
  live_addon_objects :: bool
  own_addon_properties :: bool
  set_enabled :: "error + unit"
  openPopup :: "error + unit"
  addTab :: "string \<Rightarrow> error + unit"
  confirm :: bool
  uninstall :: "error + unit"
  loadURI_available :: bool
  loadURI :: "error + unit"
  notifyObservers :: "error + unit"
  has_cache2 :: bool
  cache_clear :: "error + unit"

text \<open>What \<^verbatim>\<open>pinExtensionToToolbar\<close> probes on \<^verbatim>\<open>gUnifiedExtensions\<close> and on the action.\<close>

record pin_host =
  hasUnified :: bool
  has_togglePinned :: bool
  has_togglePinnedFor :: bool
  action_has_setPinned :: bool
  action_pinned :: bool

text \<open>
  The two cookie interfaces: the \<^verbatim>\<open>CookieManager\<close> module (import and construction,
  enumeration, removal of one cookie) and \<^verbatim>\<open>Services.cookies\<close> (enumeration, whether
  \<^verbatim>\<open>removeAllFromHost\<close> exists, removal of one cookie). A cookie is its name.
\<close>

record cookie_host =
  primary_import :: "error + unit"
  primary_getCookies :: "string \<Rightarrow> error + string list"
  primary_remove :: "string \<Rightarrow> error + unit"
  services_getCookies :: "string \<Rightarrow> error + string list"
  has_removeAllFromHost :: bool
  removeAllFromHost :: "error + unit"
  services_remove :: "string \<Rightarrow> error + unit"

definition EXTENSIONS_URL :: string where
  "EXTENSIONS_URL = ''https://addons.mozilla.org/en-US/firefox/extensions/''"

definition getAddonByID :: "host_calls \<Rightarrow> string \<Rightarrow> world \<Rightarrow> error + addon option" where
  "getAddonByID hc i w =
     (if lookup_throws hc then Inl HostError
      else Inr (find (\<lambda>a. addon_id a = i) (addons w)))"

definition set_active :: "string \<Rightarrow> bool \<Rightarrow> addon list \<Rightarrow> addon list" where
  "set_active i b as = map (\<lambda>a. if addon_id a = i then a\<lparr> isActive := b \<rparr> else a) as"

subsection \<open>Clicking an extension entry\<close>

text \<open>
  The object \<^verbatim>\<open>{ ...addon, isActive: isEnabled }\<close>. A spread copies the own enumerable
  properties of its source and nothing else. Where the add-on's properties are own, the
  copy is the add-on with \<^verbatim>\<open>isActive\<close> replaced. Where they are not, the copy has
  \<^verbatim>\<open>isActive\<close> alone: its \<^verbatim>\<open>name\<close> is undefined, which \<^verbatim>\<open>addon.name || 'Extension'\<close> treats
  like the empty name of the model, and its \<^verbatim>\<open>id\<close> is undefined, which reaches
  \<^verbatim>\<open>WebExtensionPolicy.getByID\<close> as the string \<^verbatim>\<open>undefined\<close>.
\<close>

definition spread_with_isActive :: "host_calls \<Rightarrow> addon \<Rightarrow> bool \<Rightarrow> addon" where
  "spread_with_isActive hc a isEnabled =
     (if own_addon_properties hc then a\<lparr> isActive := isEnabled \<rparr>
      else \<lparr> addon_id = ''undefined'', addon_name = [], iconURL = None,
             isActive = isEnabled, isSystem = False, optionsUrl = None,
             has_uninstall = False, has_remove = False \<rparr>)"

text \<open>
  \<^verbatim>\<open>updateExtensionImageState\<close>: the entry is looked up in the document by its id; the
  \<^verbatim>\<open>enabled\<close> attribute is written at once, the tooltip after a second lookup of the
  add-on, from the spread copy of it. A failure of that lookup is caught and leaves the
  tooltip. The tooltip is written after \<^verbatim>\<open>toggleExtensionState\<close> has gone on; nothing in
  between touches the entry, so both writes are made here.
\<close>

definition updateExtensionImageState :: "host_calls \<Rightarrow> string \<Rightarrow> bool \<Rightarrow> world \<Rightarrow> world" where
  "updateExtensionImageState hc extensionId isEnabled w =
     (case document_panel w of
        None \<Rightarrow> w
      | Some p \<Rightarrow>
          (case querySelector_ext (container p) extensionId of
             None \<Rightarrow> w
           | Some k \<Rightarrow>
               (case container p ! k of
                  Wrapper i (Some img) \<Rightarrow>
                    (let img1 = img\<lparr> enabled := bool_toString isEnabled \<rparr>;
                         img2 = (case getAddonByID hc extensionId w of
                                   Inr (Some a) \<Rightarrow>
                                     img1\<lparr> tooltiptext :=
                                       getExtensionTooltip (ext hc)
                                         (spread_with_isActive hc a isEnabled) \<rparr>
                                 | _ \<Rightarrow> img1)
                     in w\<lparr> document_panel :=
                            Some (p\<lparr> container := (container p)[k := Wrapper i (Some img2)] \<rparr>) \<rparr>)
                | _ \<Rightarrow> w)))"

text \<open>
  \<^verbatim>\<open>toggleExtensionState\<close> has no try block of its own: the first component of the result
  is the exception that leaves it, if any. After the awaited \<^verbatim>\<open>disable()\<close> or
  \<^verbatim>\<open>enable()\<close> the script reads \<^verbatim>\<open>addon.isActive\<close> again and passes its negation to
  \<^verbatim>\<open>updateExtensionImageState\<close>; \<open>isActive_now\<close> is the value of that second read.
\<close>

definition toggleExtensionState ::
  "host_calls \<Rightarrow> string \<Rightarrow> world \<Rightarrow> error option \<times> world" where
  "toggleExtensionState hc extensionId w =
     (case getAddonByID hc extensionId w of
        Inl e \<Rightarrow> (Some e, w)
      | Inr None \<Rightarrow> (None, w)
      | Inr (Some a) \<Rightarrow>
          (let w1 = call (if isActive a then Disable extensionId else Enable extensionId) w in
           case set_enabled hc of
             Inl e \<Rightarrow> (Some e, w1)
           | Inr _ \<Rightarrow>
               (let w2 = w1\<lparr> addons := set_active extensionId (\<not> isActive a) (addons w1) \<rparr>;
                    isActive_now = (if live_addon_objects hc then \<not> isActive a else isActive a)
                in (None,
                    hidePanel (updateExtensionImageState hc extensionId (\<not> isActive_now) w2)))))"

text \<open>
  \<^verbatim>\<open>openExtensionPopup\<close>, the click handler of an entry. Everything is inside one try
  block whose catch only logs.
\<close>

definition openExtensionPopup :: "host_calls \<Rightarrow> string \<Rightarrow> world \<Rightarrow> world" where
  "openExtensionPopup hc extensionId w =
     (case getByID (ext hc) extensionId of
        Inl e \<Rightarrow> w
      | Inr False \<Rightarrow> snd (toggleExtensionState hc extensionId w)
      | Inr True \<Rightarrow>
          (case browserActionFor (ext hc) extensionId of
             Inl e \<Rightarrow> w
           | Inr False \<Rightarrow> snd (toggleExtensionState hc extensionId w)
           | Inr True \<Rightarrow>
               (let w1 = call (OpenPopup extensionId) w in
                case openPopup hc of
                  Inl e \<Rightarrow> w1
                | Inr _ \<Rightarrow> hidePanel w1)))"

subsection \<open>Handlers of the extension context menu\<close>

text \<open>\<^verbatim>\<open>manageExtension\<close>: \<^verbatim>\<open>hidePanel\<close> is the last statement inside the try block.\<close>

definition manageExtension :: "host_calls \<Rightarrow> string \<Rightarrow> world \<Rightarrow> world" where
  "manageExtension hc extensionId w =
     (case getAddonByID hc extensionId w of
        Inl e \<Rightarrow> w
      | Inr ao \<Rightarrow>
          (case (case ao of Some a \<Rightarrow> optionsUrl a | None \<Rightarrow> None) of
             Some u \<Rightarrow>
               if u \<noteq> [] then
                 (let w1 = call (AddTab u) w in
                  case addTab hc u of Inl e \<Rightarrow> w1 | Inr _ \<Rightarrow> hidePanel w1)
               else hidePanel w
           | None \<Rightarrow> hidePanel w))"

text \<open>
  \<^verbatim>\<open>pinExtensionToToolbar\<close>: a missing policy returns at once; otherwise the pinning
  attempt sits in an inner try block and \<^verbatim>\<open>hidePanel\<close> follows it. \<^verbatim>\<open>manageExtension\<close> is
  called without await; its body is run here at the place of the call.
\<close>

definition pinExtensionToToolbar ::
  "host_calls \<Rightarrow> pin_host \<Rightarrow> string \<Rightarrow> world \<Rightarrow> world" where
  "pinExtensionToToolbar hc ph extensionId w =
     (case getByID (ext hc) extensionId of
        Inl e \<Rightarrow> w
      | Inr False \<Rightarrow> w
      | Inr True \<Rightarrow>
          hidePanel
            (if hasUnified ph then
               (if has_togglePinned ph then call (TogglePinned extensionId) w
                else if has_togglePinnedFor ph then call (TogglePinned extensionId) w
                else
                  (case browserActionFor (ext hc) extensionId of
                     Inr True \<Rightarrow>
                       if action_has_setPinned ph
                       then call (SetPinned extensionId (\<not> action_pinned ph)) w
                       else manageExtension hc extensionId w
                   | _ \<Rightarrow> w))
             else manageExtension hc extensionId w))"

text \<open>
  \<^verbatim>\<open>this.updateExtensions()\<close>: the class \<^verbatim>\<open>PanelManager\<close> defines no method of that name
  and nothing adds one, so the call throws a \<^verbatim>\<open>TypeError\<close>.
\<close>

definition updateExtensions :: "world \<Rightarrow> error + world" where
  "updateExtensions w = Inl TypeError"

text \<open>
  \<^verbatim>\<open>removeExtension\<close>: one try block around everything, the catch only logs. The three
  returns (add-on not found, confirmation declined, neither \<^verbatim>\<open>uninstall\<close> nor \<^verbatim>\<open>remove\<close>
  available) come before \<^verbatim>\<open>hidePanel\<close>, which is the last statement of the block.
\<close>

definition removeExtension :: "host_calls \<Rightarrow> string \<Rightarrow> world \<Rightarrow> world" where
  "removeExtension hc extensionId w =
     (case getAddonByID hc extensionId w of
        Inl e \<Rightarrow> w
      | Inr None \<Rightarrow> w
      | Inr (Some a) \<Rightarrow>
          if \<not> confirm hc then w
          else if has_uninstall a \<or> has_remove a then
            (let w1 = call (Uninstall extensionId) w in
             case uninstall hc of
               Inl e \<Rightarrow> w1
             | Inr _ \<Rightarrow>
                 (let w2 = w1\<lparr> addons := filter (\<lambda>b. addon_id b \<noteq> extensionId) (addons w1) \<rparr> in
                  case updateExtensions w2 of
                    Inl e \<Rightarrow> w2
                  | Inr w3 \<Rightarrow> hidePanel w3))
          else manageExtension hc extensionId w)"

text \<open>
  \<^verbatim>\<open>reportExtension\<close>: \<^verbatim>\<open>AddonManager.getAddonByID\<close> is not awaited here, so \<^verbatim>\<open>addon\<close> is a
  promise: it is never null and has no \<^verbatim>\<open>id\<close>, and the URL is built from the argument.
\<close>

definition reportExtension :: "host_calls \<Rightarrow> string \<Rightarrow> world \<Rightarrow> world" where
  "reportExtension hc extensionId w =
     (let reportUrl = ''https://addons.mozilla.org/firefox/feedback/addon/'' @ extensionId @ ''/'';
          w1 = call (AddTab reportUrl) w
      in case addTab hc reportUrl of Inl e \<Rightarrow> w1 | Inr _ \<Rightarrow> hidePanel w1)"

text \<open>
  The \<^verbatim>\<open>command\<close> listeners that \<^verbatim>\<open>setupExtensionMenuListeners\<close> puts on the four menu
  items: each acts on the recorded extension id if it is a non-empty string.
\<close>

datatype menu_item = PinItem | ManageItem | RemoveItem | ReportItem

definition menu_command :: "host_calls \<Rightarrow> pin_host \<Rightarrow> menu_item \<Rightarrow> world \<Rightarrow> world" where
  "menu_command hc ph item w =
     (if \<not> extensionMenuListenersSetup w then w
      else
        (case currentContextMenuExtensionId w of
           None \<Rightarrow> w
         | Some i \<Rightarrow>
             if i = [] then w
             else
               (case item of
                  PinItem \<Rightarrow> pinExtensionToToolbar hc ph i w
                | ManageItem \<Rightarrow> manageExtension hc i w
                | RemoveItem \<Rightarrow> removeExtension hc i w
                | ReportItem \<Rightarrow> reportExtension hc i w)))"

subsection \<open>Handlers of the panel and of the extras menu\<close>

text \<open>
  \<^verbatim>\<open>openExtensionsPage\<close> has no try block: when \<^verbatim>\<open>UC_API.Utils.loadURI\<close> throws, the
  exception leaves the handler (first component of the result) before \<^verbatim>\<open>hidePanel\<close>.
\<close>

definition openExtensionsPage :: "host_calls \<Rightarrow> world \<Rightarrow> error option \<times> world" where
  "openExtensionsPage hc w =
     (if loadURI_available hc then
        (let w1 = call (LoadURI EXTENSIONS_URL) w in
         case loadURI hc of
           Inl e \<Rightarrow> (Some e, w1)
         | Inr _ \<Rightarrow> (None, hidePanel w1))
      else (None, hidePanel w))"

definition manageExtensions :: "world \<Rightarrow> world" where
  "manageExtensions w = hidePanel (call (AddTab ''about:addons'') w)"

definition showPagePermissions :: "world \<Rightarrow> world" where
  "showPagePermissions w = hidePanel (call (AddTab ''about:preferences#privacy'') w)"

text \<open>\<^verbatim>\<open>clearCache\<close>: a try block whose catch logs, then \<^verbatim>\<open>hidePanel\<close>.\<close>

definition clearCache :: "host_calls \<Rightarrow> page \<Rightarrow> world \<Rightarrow> world" where
  "clearCache hc pg w =
     hidePanel
       (case currentURI pg of
          None \<Rightarrow> w
        | Some u \<Rightarrow>
            (let w1 = call PurgeSessionHistory w in
             case notifyObservers hc of
               Inl e \<Rightarrow> w1
             | Inr _ \<Rightarrow>
                 if has_cache2 hc then
                   (let w2 = call ClearCache w1 in
                    case cache_clear hc of Inl e \<Rightarrow> w2 | Inr _ \<Rightarrow> call Reload w2)
                 else call Reload w1))"

subsection \<open>Clearing cookies\<close>

text \<open>
  The loop over the cookies of the primary interface: every removal is tried, a failure
  is caught per cookie and only \<^verbatim>\<open>removedCount\<close> records the difference.
\<close>

fun primary_remove_loop :: "cookie_host \<Rightarrow> string list \<Rightarrow> nat \<Rightarrow> world \<Rightarrow> nat \<times> world" where
  "primary_remove_loop ck [] removedCount w = (removedCount, w)"
| "primary_remove_loop ck (c # cs) removedCount w =
     primary_remove_loop ck cs
       (case primary_remove ck c of Inl e \<Rightarrow> removedCount | Inr _ \<Rightarrow> removedCount + 1)
       (call (PrimaryRemove c) w)"

text \<open>The loop of the fallback when \<^verbatim>\<open>removeAllFromHost\<close> does not exist.\<close>

fun fallback_remove_loop ::
  "cookie_host \<Rightarrow> string list \<Rightarrow> nat \<times> nat \<Rightarrow> world \<Rightarrow> (nat \<times> nat) \<times> world" where
  "fallback_remove_loop ck [] counts w = (counts, w)"
| "fallback_remove_loop ck (c # cs) (removedCount, failedCount) w =
     fallback_remove_loop ck cs
       (case services_remove ck c of
          Inl e \<Rightarrow> (removedCount, failedCount + 1)
        | Inr _ \<Rightarrow> (removedCount + 1, failedCount))
       (call (FallbackRemove c) w)"

text \<open>
  The catch branch of the primary attempt. The enumeration through \<^verbatim>\<open>Services.cookies\<close>
  stands before the inner try block: if it throws, the exception leaves the branch. A
  throwing \<^verbatim>\<open>removeAllFromHost\<close> is caught inside.
\<close>

definition fallback_removal :: "cookie_host \<Rightarrow> string \<Rightarrow> world \<Rightarrow> error option \<times> world" where
  "fallback_removal ck h w =
     (let w1 = call (FallbackGetCookies h) w in
      case services_getCookies ck h of
        Inl e \<Rightarrow> (Some e, w1)
      | Inr cookies \<Rightarrow>
          if has_removeAllFromHost ck then
            (let w2 = call (RemoveAllFromHost h) w1 in
             case removeAllFromHost ck of
               Inl e \<Rightarrow> (None, w2)
             | Inr _ \<Rightarrow> (None, call (LogClearedAll h) w2))
          else
            (case fallback_remove_loop ck cookies (0, 0) w1 of
               ((removedCount, failedCount), w2) \<Rightarrow>
                 (None, call (LogFallbackDone h removedCount failedCount) w2)))"

text \<open>The inner try block of \<^verbatim>\<open>clearCookies\<close> with its catch branch.\<close>

definition cookie_removal :: "cookie_host \<Rightarrow> string \<Rightarrow> world \<Rightarrow> error option \<times> world" where
  "cookie_removal ck h w =
     (let w1 = call ImportCookieManager w in
      case primary_import ck of
        Inl e \<Rightarrow> fallback_removal ck h w1
      | Inr _ \<Rightarrow>
          (let w2 = call (PrimaryGetCookies h) w1 in
           case primary_getCookies ck h of
             Inl e \<Rightarrow> fallback_removal ck h w2
           | Inr cookies \<Rightarrow>
               (case primary_remove_loop ck cookies 0 w2 of
                  (removedCount, w3) \<Rightarrow> (None, call (LogPrimaryDone h removedCount) w3))))"

text \<open>
  \<^verbatim>\<open>clearCookies\<close>: the outer try block ends with \<^verbatim>\<open>gBrowser.reload()\<close>; \<^verbatim>\<open>hidePanel\<close>
  follows the block.
\<close>

definition clearCookies :: "cookie_host \<Rightarrow> page \<Rightarrow> world \<Rightarrow> world" where
  "clearCookies ck pg w =
     hidePanel
       (case currentURI pg of
          None \<Rightarrow> w
        | Some u \<Rightarrow>
            (case host u of
               Inl e \<Rightarrow> w
             | Inr h \<Rightarrow>
                 if h = [] then w
                 else
                   (case cookie_removal ck h w of
                      (Some e, w1) \<Rightarrow> w1
                    | (None, w1) \<Rightarrow> call Reload w1)))"

text \<open>How often the fallback interface was entered, and how often a reload was asked for.\<close>

fun is_fallback_entry :: "effect \<Rightarrow> bool" where
  "is_fallback_entry (FallbackGetCookies h) = True"
| "is_fallback_entry e = False"

definition fallback_invocations :: "effect list \<Rightarrow> nat" where
  "fallback_invocations es = length (filter is_fallback_entry es)"

definition reloads :: "effect list \<Rightarrow> nat" where
  "reloads es = count_list es Reload"

section \<open>Example inputs\<close>

text \<open>Three user extensions, a page of an https site, and a window without \<^verbatim>\<open>#mainPopupSet\<close>.\<close>

definition ext_A :: addon where
  "ext_A = \<lparr> addon_id = ''a@example.org'', addon_name = ''Alpha'', iconURL = None,
             isActive = True, isSystem = False, optionsUrl = None,
             has_uninstall = True, has_remove = False \<rparr>"

definition ext_B :: addon where
  "ext_B = \<lparr> addon_id = ''b@example.org'', addon_name = ''Beta'',
             iconURL = Some ''moz-extension://b/icon.png'',
             isActive = False, isSystem = False, optionsUrl = Some ''moz-extension://b/options.html'',
             has_uninstall = True, has_remove = False \<rparr>"

definition ext_C :: addon where
  "ext_C = \<lparr> addon_id = ''c@example.org'', addon_name = ''Gamma'', iconURL = Some [],
             isActive = True, isSystem = False, optionsUrl = None,
             has_uninstall = False, has_remove = False \<rparr>"

text \<open>A host in which every extension has a policy and none has a browser action.\<close>

definition no_actions :: ext_host where
  "no_actions = \<lparr> getByID = (\<lambda>i. Inr True), browserActionFor = (\<lambda>i. Inr False) \<rparr>"

definition https_page :: page where
  "https_page =
     \<lparr> has_mainPopupSet = True,
       identityPermissionBox = Some \<lparr> hasSharingIcon = False, hasPermissions = False \<rparr>,
       currentURI = Some \<lparr> scheme = ''https'', host = Inr ''example.org'' \<rparr> \<rparr>"

definition bare_page :: page where
  "bare_page =
     \<lparr> has_mainPopupSet = False, identityPermissionBox = None, currentURI = None \<rparr>"

definition anchor_button :: "string option" where
  "anchor_button = Some ''page-controls-button''"

text \<open>The panel open in a window whose host has \<open>ext_A\<close>, before any click.\<close>

definition open_world :: world where
  "open_world = loadExtensions no_actions (showPanel https_page anchor_button (initial_world [ext_A]))"

text \<open>
  A host on which every call succeeds, with add-on objects as the \<^verbatim>\<open>AddonManager\<close> hands
  them out: they follow the add-on, and their properties are not their own.
\<close>

definition working_host :: host_calls where
  "working_host =
     \<lparr> ext = no_actions, lookup_throws = False, live_addon_objects = True,
       own_addon_properties = False,
       set_enabled = Inr (), openPopup = Inr (), addTab = (\<lambda>u. Inr ()),
       confirm = True, uninstall = Inr (), loadURI_available = True, loadURI = Inr (),
       notifyObservers = Inr (), has_cache2 = True, cache_clear = Inr () \<rparr>"

text \<open>
  The same host with the policies a browser has: one for the installed extension
  \<open>ext_A\<close> and for no other id, and no browser action.
\<close>

definition installed_policies :: ext_host where
  "installed_policies =
     \<lparr> getByID = (\<lambda>i. Inr (i = ''a@example.org'')), browserActionFor = (\<lambda>i. Inr False) \<rparr>"

definition wrapper_host :: host_calls where
  "wrapper_host = working_host\<lparr> ext := installed_policies \<rparr>"

definition unified_host :: pin_host where
  "unified_host =
     \<lparr> hasUnified = True, has_togglePinned = True, has_togglePinnedFor = False,
       action_has_setPinned = False, action_pinned = False \<rparr>"

text \<open>Hosts on which something is missing or fails.\<close>

definition no_policy :: ext_host where
  "no_policy = \<lparr> getByID = (\<lambda>i. Inr False), browserActionFor = (\<lambda>i. Inr False) \<rparr>"

definition tabs_fail :: host_calls where
  "tabs_fail = working_host\<lparr> addTab := (\<lambda>u. Inl HostError) \<rparr>"

text \<open>A host that hands out plain copies of the add-on taken at lookup time.\<close>

definition snapshot_host :: host_calls where
  "snapshot_host =
     working_host\<lparr> live_addon_objects := False, own_addon_properties := True \<rparr>"

text \<open>
  Cookie interfaces: one on which the primary interface works but every single removal
  throws, and one on which neither interface can enumerate.
\<close>

definition removals_fail :: cookie_host where
  "removals_fail =
     \<lparr> primary_import = Inr (), primary_getCookies = (\<lambda>h. Inr [''sid'', ''theme'']),
       primary_remove = (\<lambda>c. Inl HostError),
       services_getCookies = (\<lambda>h. Inr [''sid'', ''theme'']),
       has_removeAllFromHost = True, removeAllFromHost = Inr (),
       services_remove = (\<lambda>c. Inr ()) \<rparr>"

definition no_cookie_api :: cookie_host where
  "no_cookie_api =
     \<lparr> primary_import = Inl HostError, primary_getCookies = (\<lambda>h. Inl HostError),
       primary_remove = (\<lambda>c. Inl HostError),
       services_getCookies = (\<lambda>h. Inl HostError),
       has_removeAllFromHost = False, removeAllFromHost = Inl HostError,
       services_remove = (\<lambda>c. Inl HostError) \<rparr>"

definition module_missing :: cookie_host where
  "module_missing =
     \<lparr> primary_import = Inl HostError, primary_getCookies = (\<lambda>h. Inl HostError),
       primary_remove = (\<lambda>c. Inl HostError),
       services_getCookies = (\<lambda>h. Inr [''sid'', ''theme'']),
       has_removeAllFromHost = True, removeAllFromHost = Inl HostError,
       services_remove = (\<lambda>c. Inr ()) \<rparr>"

section \<open>Reconciliation: helper lemmas\<close>

lemma querySelector_ext_None:
  "querySelector_ext c x = None \<longleftrightarrow> x \<notin> set (rendered_ids c)"
  by (induction c rule: rendered_ids.induct) auto

lemma querySelector_ext_Some:
  "querySelector_ext c x = Some k \<Longrightarrow> k < length c \<and> data_extension_id (c ! k) = Some x"
proof (induction c arbitrary: k)
  case Nil
  then show ?case by simp
next
  case (Cons n c)
  then show ?case by (auto split: if_splits)
qed

lemma data_extension_id_update [simp]:
  "data_extension_id (updateExistingExtension h n a) = data_extension_id n"
  by (cases "(h, n, a)" rule: updateExistingExtension.cases) auto

lemma rendered_ids_list_update:
  "k < length c \<Longrightarrow> data_extension_id n = data_extension_id (c ! k)
     \<Longrightarrow> rendered_ids (c[k := n]) = rendered_ids c"
proof (induction c arbitrary: k rule: rendered_ids.induct)
  case 1
  then show ?case by simp
next
  case (2 t c)
  then show ?case by (cases k; cases n) auto
next
  case (3 i img c)
  then show ?case by (cases k; cases n) auto
qed

lemma rendered_ids_addNew [simp]:
  "rendered_ids (addNewExtension h c a) = addon_id a # rendered_ids c"
  by (simp add: addNewExtension_def createExtensionWrapper_def)

lemma rendered_ids_append [simp]:
  "rendered_ids (xs @ ys) = rendered_ids xs @ rendered_ids ys"
  by (induction xs rule: rendered_ids.induct) auto

lemma rendered_ids_new_wrappers:
  "rendered_ids (map (\<lambda>a. createExtensionWrapper a (createExtensionImage h a)) as)
     = map addon_id as"
  by (induction as) (auto simp: createExtensionWrapper_def)

lemma rendered_ids_rev: "rendered_ids (rev c) = rev (rendered_ids c)"
  by (induction c rule: rendered_ids.induct) auto

lemma process_loop_ids:
  "set (rendered_ids (fst (process_loop h c d as)))
     = set (rendered_ids c) \<union> addon_id ` set as"
proof (induction as arbitrary: c d)
  case Nil
  then show ?case by simp
next
  case (Cons a as)
  show ?case
  proof (cases "querySelector_ext c (addon_id a)")
    case None
    then show ?thesis using Cons.IH by simp
  next
    case (Some k)
    then have "rendered_ids (c[k := updateExistingExtension h (c ! k) a]) = rendered_ids c"
      by (simp add: querySelector_ext_Some rendered_ids_list_update)
    moreover have "addon_id a \<in> set (rendered_ids c)"
      using Some querySelector_ext_None [of c "addon_id a"] by simp
    ultimately show ?thesis using Some Cons.IH by auto
  qed
qed

lemma process_loop_distinct:
  "distinct (rendered_ids c) \<Longrightarrow> distinct (rendered_ids (fst (process_loop h c d as)))"
proof (induction as arbitrary: c d)
  case Nil
  then show ?case by simp
next
  case (Cons a as)
  show ?case
  proof (cases "querySelector_ext c (addon_id a)")
    case None
    then have "addon_id a \<notin> set (rendered_ids c)"
      by (simp add: querySelector_ext_None)
    then show ?thesis using None Cons by simp
  next
    case (Some k)
    then have "rendered_ids (c[k := updateExistingExtension h (c ! k) a]) = rendered_ids c"
      by (simp add: querySelector_ext_Some rendered_ids_list_update)
    then show ?thesis using Some Cons by simp
  qed
qed

lemma rendered_ids_removeUninstalled:
  "rendered_ids (removeUninstalledExtensions c exts)
     = filter (\<lambda>i. i = [] \<or> i \<in> addon_id ` set exts) (rendered_ids c)"
  by (induction c rule: rendered_ids.induct) (auto simp: removeUninstalledExtensions_def)

lemma process_loop_fresh:
  "rendered_ids c = [] \<Longrightarrow> distinct (map addon_id as) \<Longrightarrow> set (map addon_id as) \<inter> set pre = {}
     \<Longrightarrow> rendered_ids pre' = pre
     \<Longrightarrow> fst (process_loop h (pre' @ c) d as)
           = rev (map (\<lambda>a. createExtensionWrapper a (createExtensionImage h a)) as) @ pre' @ c"
proof (induction as arbitrary: pre pre' d)
  case Nil
  then show ?case by simp
next
  case (Cons a as)
  have ids: "rendered_ids (pre' @ c) = pre"
    using Cons.prems(1,4) by simp
  have "addon_id a \<notin> set pre" using Cons.prems(3) by auto
  then have q: "querySelector_ext (pre' @ c) (addon_id a) = None"
    unfolding querySelector_ext_None ids .
  let ?w = "createExtensionWrapper a (createExtensionImage h a)"
  have "fst (process_loop h ((?w # pre') @ c) (d(addon_id a \<mapsto> \<lparr> rec_id = addon_id a,
            rec_name = addon_name a, rec_iconURL = iconURL a \<rparr>)) as)
          = rev (map (\<lambda>a. createExtensionWrapper a (createExtensionImage h a)) as)
              @ (?w # pre') @ c"
  proof (rule Cons.IH [where pre = "addon_id a # pre"])
    show "rendered_ids c = []" by (rule Cons.prems(1))
    show "distinct (map addon_id as)" using Cons.prems(2) by simp
    show "set (map addon_id as) \<inter> set (addon_id a # pre) = {}"
      using Cons.prems(2,3) by auto
    show "rendered_ids (?w # pre') = addon_id a # pre"
      using Cons.prems(4) by (simp add: createExtensionWrapper_def)
  qed
  then show ?case using q by (simp add: addNewExtension_def)
qed

lemma removeUninstalled_keeps:
  "set (rendered_ids c) \<subseteq> addon_id ` set exts \<Longrightarrow> removeUninstalledExtensions c exts = c"
  by (induction c rule: rendered_ids.induct) (auto simp: removeUninstalledExtensions_def)

lemma fst_processExtensions:
  "fst (processExtensions h c exts)
     = removeUninstalledExtensions (fst (process_loop h c Map.empty exts)) exts"
  by (simp add: processExtensions_def split: prod.splits)

lemma initial_container_wf: "rendered_wf initial_container"
  by (simp add: rendered_wf_def initial_container_def)

section \<open>Reconciliation: the claims\<close>

text \<open>
  C1. A reconciliation pass (the loop of \<^verbatim>\<open>processExtensions\<close> followed by
  \<^verbatim>\<open>removeUninstalledExtensions\<close>) over container contents that earlier passes rendered
  (no id twice, no empty id) and the current add-ons (ids non-empty) leaves exactly the
  current ids on the rendered nodes: the set of rendered ids is the set of current ids,
  no id is rendered twice, and the container is again as a pass leaves it.
\<close>

theorem reconciliation_exact:
  assumes "rendered_wf c" and "\<forall>a \<in> set userExtensions. addon_id a \<noteq> []"
  shows "set (rendered_ids (fst (processExtensions h c userExtensions)))
           = addon_id ` set userExtensions
         \<and> distinct (rendered_ids (fst (processExtensions h c userExtensions)))
         \<and> rendered_wf (fst (processExtensions h c userExtensions))"
proof -
  obtain c' d where loop: "process_loop h c Map.empty userExtensions = (c', d)"
    by (cases "process_loop h c Map.empty userExtensions")
  have res: "fst (processExtensions h c userExtensions)
               = removeUninstalledExtensions c' userExtensions"
    by (simp add: processExtensions_def loop)
  have ids: "set (rendered_ids c') = set (rendered_ids c) \<union> addon_id ` set userExtensions"
    using process_loop_ids [of h c Map.empty userExtensions] loop by simp
  have dist: "distinct (rendered_ids c')"
    using process_loop_distinct [of c h Map.empty userExtensions] assms(1) loop
    by (simp add: rendered_wf_def)
  have noempty: "[] \<notin> set (rendered_ids c')"
    using ids assms by (auto simp: rendered_wf_def)
  have s: "set (rendered_ids (removeUninstalledExtensions c' userExtensions))
             = addon_id ` set userExtensions"
    using ids noempty by (auto simp: rendered_ids_removeUninstalled)
  have d': "distinct (rendered_ids (removeUninstalledExtensions c' userExtensions))"
    using dist by (simp add: rendered_ids_removeUninstalled)
  have "[] \<notin> set (rendered_ids (removeUninstalledExtensions c' userExtensions))"
    using noempty by (simp add: rendered_ids_removeUninstalled)
  then show ?thesis using s d' by (simp add: res rendered_wf_def)
qed


theorem reconciliation_exact_witness:
  "rendered_wf [Wrapper ''b@example.org'' None, Wrapper ''gone@example.org'' None,
                Other ''add-extension-button'']
   \<and> addon_id ext_A \<noteq> [] \<and> addon_id ext_B \<noteq> []
   \<and> set (rendered_ids (fst (processExtensions no_actions
            [Wrapper ''b@example.org'' None, Wrapper ''gone@example.org'' None,
             Other ''add-extension-button'']
            [ext_A, ext_B])))
       = {''a@example.org'', ''b@example.org''}
   \<and> distinct (rendered_ids (fst (processExtensions no_actions
            [Wrapper ''b@example.org'' None, Wrapper ''gone@example.org'' None,
             Other ''add-extension-button'']
            [ext_A, ext_B])))"
proof -
  have wf: "rendered_wf [Wrapper ''b@example.org'' None, Wrapper ''gone@example.org'' None,
                         Other ''add-extension-button'']"
    by (simp add: rendered_wf_def)
  have ne: "\<forall>a \<in> set [ext_A, ext_B]. addon_id a \<noteq> []"
    by (simp add: ext_A_def ext_B_def)
  show ?thesis
    using reconciliation_exact [OF wf ne, of no_actions] wf ne
    by (simp add: ext_A_def ext_B_def)
qed

text \<open>
  C6. With no extension rendered and the query answering pairwise different add-ons in
  install order, one pass leaves their entries in reverse order at the front of the
  container, before everything that was there: for \<open>[A, B, C]\<close> the first child is
  \<open>C\<close>, then \<open>B\<close>, then \<open>A\<close>. Inside the loop, an add-on whose id is not rendered is
  inserted as the first child.
\<close>

theorem newest_extension_first:
  "(rendered_ids c = [] \<and> distinct (map addon_id userExtensions) \<longrightarrow>
      fst (processExtensions h c userExtensions)
        = rev (map (\<lambda>a. createExtensionWrapper a (createExtensionImage h a)) userExtensions) @ c)
   \<and> (addon_id a \<notin> set (rendered_ids c) \<longrightarrow>
        (\<exists>d'. process_loop h c d (a # as)
                = process_loop h (createExtensionWrapper a (createExtensionImage h a) # c) d' as))"
proof (intro conjI impI)
  assume "rendered_ids c = [] \<and> distinct (map addon_id userExtensions)"
  then have e: "rendered_ids c = []" and di: "distinct (map addon_id userExtensions)"
    by simp_all
  let ?new = "rev (map (\<lambda>a. createExtensionWrapper a (createExtensionImage h a)) userExtensions)"
  have loop: "fst (process_loop h ([] @ c) Map.empty userExtensions) = ?new @ [] @ c"
    by (rule process_loop_fresh [where pre = "[]"]) (use e di in simp_all)
  have "rendered_ids ?new = rev (map addon_id userExtensions)"
    by (simp only: rendered_ids_rev rendered_ids_new_wrappers)
  then have "set (rendered_ids (?new @ c)) \<subseteq> addon_id ` set userExtensions"
    using e by simp
  then have "removeUninstalledExtensions (?new @ c) userExtensions = ?new @ c"
    by (rule removeUninstalled_keeps)
  then show "fst (processExtensions h c userExtensions) = ?new @ c"
    using loop by (simp add: fst_processExtensions)
next
  assume "addon_id a \<notin> set (rendered_ids c)"
  then have "querySelector_ext c (addon_id a) = None"
    by (simp add: querySelector_ext_None)
  then show "\<exists>d'. process_loop h c d (a # as)
                = process_loop h (createExtensionWrapper a (createExtensionImage h a) # c) d' as"
    by (auto simp: addNewExtension_def)
qed

theorem newest_extension_first_witness:
  "rendered_ids initial_container = []
   \<and> distinct (map addon_id [ext_A, ext_B, ext_C])
   \<and> map data_extension_id (fst (processExtensions no_actions initial_container
                                     [ext_A, ext_B, ext_C]))
       = [Some ''c@example.org'', Some ''b@example.org'', Some ''a@example.org'', None]"
proof -
  have e: "rendered_ids initial_container = []"
    by (simp add: initial_container_def)
  have d: "distinct (map addon_id [ext_A, ext_B, ext_C])"
    by (simp add: ext_A_def ext_B_def ext_C_def)
  have "fst (processExtensions no_actions initial_container [ext_A, ext_B, ext_C])
          = rev (map (\<lambda>a. createExtensionWrapper a (createExtensionImage no_actions a))
                   [ext_A, ext_B, ext_C]) @ initial_container"
    using newest_extension_first [of initial_container "[ext_A, ext_B, ext_C]" no_actions]
          e d by blast
  then show ?thesis
    using e d
    by (simp add: createExtensionWrapper_def initial_container_def
          ext_A_def ext_B_def ext_C_def)
qed

section \<open>The panel lifecycle: helper lemmas\<close>

lemma removePanelGlobalHandlers_fields:
  "isOpen (removePanelGlobalHandlers w) = isOpen w"
  "panel (removePanelGlobalHandlers w) = panel w"
  "lastAnchorButton (removePanelGlobalHandlers w) = lastAnchorButton w"
  "boundOnGlobalPointerDown (removePanelGlobalHandlers w) = None"
  "boundOnGlobalKeyDown (removePanelGlobalHandlers w) = None"
  by (simp_all add: removePanelGlobalHandlers_def Let_def split: option.splits)

lemma remove_registered:
  "handlers_registered w \<Longrightarrow> handlers_absent (removePanelGlobalHandlers w)"
  by (auto simp: handlers_registered_def handlers_absent_def removePanelGlobalHandlers_def)

lemma remove_absent:
  "handlers_absent w \<Longrightarrow> removePanelGlobalHandlers w = w"
  by (simp add: handlers_absent_def removePanelGlobalHandlers_def)

lemma hidePanel_inv:
  assumes "panel_inv w" shows "panel_inv (hidePanel w)"
proof (cases "panel w \<and> isOpen w")
  case True
  then have r: "handlers_registered w" using assms by (simp add: panel_inv_def)
  have "handlers_registered (w\<lparr> popup_open := False, isOpen := False \<rparr>)"
    using r by (simp add: handlers_registered_def)
  then have "handlers_absent (hidePanel w)"
    using True by (simp add: hidePanel_def remove_registered)
  moreover have "\<not> isOpen (hidePanel w)"
    using True by (simp add: hidePanel_def removePanelGlobalHandlers_fields)
  ultimately show ?thesis by (simp add: panel_inv_def)
next
  case False
  then show ?thesis using assms by (auto simp: hidePanel_def)
qed

lemma hidePanel_closed: "panel_inv w \<Longrightarrow> \<not> isOpen (hidePanel w)"
  by (auto simp: hidePanel_def removePanelGlobalHandlers_fields panel_inv_def split: if_splits)

lemma createPanel_fields:
  "isOpen (createPanel pg w) = isOpen w"
  "lastAnchorButton (createPanel pg w) = lastAnchorButton w"
  "boundOnGlobalPointerDown (createPanel pg w) = boundOnGlobalPointerDown w"
  "boundOnGlobalKeyDown (createPanel pg w) = boundOnGlobalKeyDown w"
  "window_listeners (createPanel pg w) = window_listeners w"
  "panel (createPanel pg w) = (panel w \<or> has_mainPopupSet pg)"
  by (simp_all add: createPanel_def Let_def)

lemma setupAddonListenerIfNeeded_fields:
  "isOpen (setupAddonListenerIfNeeded w) = isOpen w"
  "panel (setupAddonListenerIfNeeded w) = panel w"
  "lastAnchorButton (setupAddonListenerIfNeeded w) = lastAnchorButton w"
  "boundOnGlobalPointerDown (setupAddonListenerIfNeeded w) = boundOnGlobalPointerDown w"
  "boundOnGlobalKeyDown (setupAddonListenerIfNeeded w) = boundOnGlobalKeyDown w"
  "window_listeners (setupAddonListenerIfNeeded w) = window_listeners w"
  by (simp_all add: setupAddonListenerIfNeeded_def)

lemma refreshSecurityStatus_fields:
  "isOpen (refreshSecurityStatus pg w) = isOpen w"
  "panel (refreshSecurityStatus pg w) = panel w"
  "lastAnchorButton (refreshSecurityStatus pg w) = lastAnchorButton w"
  "boundOnGlobalPointerDown (refreshSecurityStatus pg w) = boundOnGlobalPointerDown w"
  "boundOnGlobalKeyDown (refreshSecurityStatus pg w) = boundOnGlobalKeyDown w"
  "window_listeners (refreshSecurityStatus pg w) = window_listeners w"
  by (simp_all add: refreshSecurityStatus_def split: option.splits)

lemma addPanelGlobalHandlers_fields:
  "isOpen (addPanelGlobalHandlers w) = isOpen w"
  "panel (addPanelGlobalHandlers w) = panel w"
  "lastAnchorButton (addPanelGlobalHandlers w) = lastAnchorButton w"
  by (simp_all add: addPanelGlobalHandlers_def)

lemma add_absent:
  "handlers_absent w \<Longrightarrow> handlers_registered (addPanelGlobalHandlers w)"
  by (simp add: handlers_absent_def handlers_registered_def addPanelGlobalHandlers_def)

lemma add_registered:
  "handlers_registered w \<Longrightarrow> addPanelGlobalHandlers w = w"
  by (simp add: handlers_registered_def addPanelGlobalHandlers_def)

lemma handlers_eq:
  "boundOnGlobalPointerDown w' = boundOnGlobalPointerDown w \<Longrightarrow>
   boundOnGlobalKeyDown w' = boundOnGlobalKeyDown w \<Longrightarrow>
   window_listeners w' = window_listeners w \<Longrightarrow>
   handlers_registered w' = handlers_registered w \<and> handlers_absent w' = handlers_absent w"
  by (simp add: handlers_registered_def handlers_absent_def)

lemma showPanel_noop:
  assumes "b = None \<or> (\<not> panel w \<and> \<not> has_mainPopupSet pg)"
  shows "isOpen (showPanel pg b w) = isOpen w"
    and "lastAnchorButton (showPanel pg b w) = lastAnchorButton w"
    and "boundOnGlobalPointerDown (showPanel pg b w) = boundOnGlobalPointerDown w"
    and "boundOnGlobalKeyDown (showPanel pg b w) = boundOnGlobalKeyDown w"
    and "window_listeners (showPanel pg b w) = window_listeners w"
    and "panel w \<Longrightarrow> panel (showPanel pg b w)"
  using assms by (auto simp: showPanel_def Let_def createPanel_fields)

lemma showPanel_opens:
  assumes "b \<noteq> None" and "panel w \<or> has_mainPopupSet pg" and "panel_inv w"
  shows "panel_inv (showPanel pg b w) \<and> isOpen (showPanel pg b w)"
proof -
  define w1 where "w1 = (if \<not> panel w then createPanel pg w else w)"
  define w4 where "w4 = (refreshSecurityStatus pg (setupAddonListenerIfNeeded w1))
                \<lparr> popup_open := True, isOpen := True, lastAnchorButton := b \<rparr>"
  have p1: "panel w1" using assms(2) by (auto simp: w1_def createPanel_fields)
  have sp: "showPanel pg b w = addPanelGlobalHandlers w4"
    using p1 assms(1) by (simp add: showPanel_def w1_def w4_def Let_def)
  have f4: "boundOnGlobalPointerDown w4 = boundOnGlobalPointerDown w"
    "boundOnGlobalKeyDown w4 = boundOnGlobalKeyDown w"
    "window_listeners w4 = window_listeners w"
    by (simp_all add: w4_def w1_def refreshSecurityStatus_fields
        setupAddonListenerIfNeeded_fields createPanel_fields)
  have h4: "handlers_registered w4 = handlers_registered w"
    "handlers_absent w4 = handlers_absent w"
    using handlers_eq [OF f4] by simp_all
  have o4: "isOpen w4" "lastAnchorButton w4 = b" "panel w4"
    using p1 by (simp_all add: w4_def refreshSecurityStatus_fields
        setupAddonListenerIfNeeded_fields)
  have "handlers_registered (addPanelGlobalHandlers w4)"
  proof (cases "isOpen w")
    case True
    then have "handlers_registered w4" using assms(3) h4 by (simp add: panel_inv_def)
    then show ?thesis by (simp add: add_registered)
  next
    case False
    then have "handlers_absent w4" using assms(3) h4 by (simp add: panel_inv_def)
    then show ?thesis by (rule add_absent)
  qed
  then show ?thesis
    using o4 assms(1) by (simp add: sp panel_inv_def addPanelGlobalHandlers_fields)
qed

lemma showPanel_inv:
  assumes "panel_inv w" shows "panel_inv (showPanel pg b w)"
proof (cases "b = None \<or> (\<not> panel w \<and> \<not> has_mainPopupSet pg)")
  case True
  have "handlers_registered (showPanel pg b w) = handlers_registered w"
    "handlers_absent (showPanel pg b w) = handlers_absent w"
    using handlers_eq [OF showPanel_noop(3) [OF True] showPanel_noop(4) [OF True]
        showPanel_noop(5) [OF True]] by simp_all
  then show ?thesis
    using assms showPanel_noop(1,2,6) [OF True] by (auto simp: panel_inv_def)
next
  case False
  then show ?thesis using showPanel_opens [of b w pg] assms by blast
qed

lemma panel_step_inv: "panel_inv w \<Longrightarrow> panel_inv (panel_step w c)"
  by (cases c) (simp_all add: hidePanel_inv showPanel_inv togglePanel_def)

lemma run_panel_inv: "panel_inv w \<Longrightarrow> panel_inv (run_panel cs w)"
  unfolding run_panel_def by (induction cs arbitrary: w) (simp_all add: panel_step_inv)

lemma initial_inv: "panel_inv (initial_world as)"
  by (simp add: panel_inv_def initial_world_def handlers_absent_def)

lemma inv_listeners:
  "panel_inv w \<Longrightarrow>
     map fst (window_listeners w) = (if isOpen w then [PointerDown, KeyDown] else [])"
  by (auto simp: panel_inv_def handlers_registered_def handlers_absent_def split: if_splits)

lemma shown_world:
  "showPanel https_page anchor_button (initial_world as) =
     \<lparr> panel = True, isOpen = True, extensionData = Map.empty, addonListener = True,
       extrasMenuListenersSetup = False, extensionMenuListenersSetup = False,
       currentContextMenu = False, currentContextMenuExtensionId = None,
       boundOnGlobalPointerDown = Some 0, boundOnGlobalKeyDown = Some 1,
       lastAnchorButton = Some ''page-controls-button'',
       window_listeners = [(PointerDown, 0), (KeyDown, 1)], next_closure = 2,
       document_panel = Some \<lparr> container = initial_container,
         security_src = Some ''chrome://browser/skin/zen-icons/security.svg'' \<rparr>,
       popup_open = True, extension_menu = None,
       addons = as, addon_listeners = 1, effects = [] \<rparr>"
  by (simp add: showPanel_def createPanel_def setupAddonListenerIfNeeded_def
      refreshSecurityStatus_def updateSecurityStatus_def addPanelGlobalHandlers_def
      initial_world_def https_page_def anchor_button_def Let_def)

section \<open>The panel lifecycle: the claims\<close>

text \<open>
  C2. After any sequence of \<^verbatim>\<open>showPanel\<close>, \<^verbatim>\<open>hidePanel\<close> and \<^verbatim>\<open>togglePanel\<close> calls from the
  initial state, the script's listeners on the window are exactly one \<^verbatim>\<open>pointerdown\<close> and
  one \<^verbatim>\<open>keydown\<close> listener while the panel is open and none while it is closed, never more
  than two; the bound closures and the registered listeners agree, so no listener
  survives a hide.
\<close>

theorem dismissal_listeners_balanced:
  "map fst (window_listeners (run_panel cs (initial_world as)))
     = (if isOpen (run_panel cs (initial_world as)) then [PointerDown, KeyDown] else [])
   \<and> length (window_listeners (run_panel cs (initial_world as)))
     = (if isOpen (run_panel cs (initial_world as)) then 2 else 0)
   \<and> length (window_listeners (run_panel cs (initial_world as))) \<le> 2
   \<and> panel_inv (run_panel cs (initial_world as))"
proof -
  have inv: "panel_inv (run_panel cs (initial_world as))"
    by (rule run_panel_inv [OF initial_inv])
  have m: "map fst (window_listeners (run_panel cs (initial_world as)))
     = (if isOpen (run_panel cs (initial_world as)) then [PointerDown, KeyDown] else [])"
    by (rule inv_listeners [OF inv])
  have "length (map fst (window_listeners (run_panel cs (initial_world as))))
     = (if isOpen (run_panel cs (initial_world as)) then 2 else 0)"
    unfolding m by simp
  then have len: "length (window_listeners (run_panel cs (initial_world as)))
     = (if isOpen (run_panel cs (initial_world as)) then 2 else 0)"
    by (simp only: length_map)
  then have "length (window_listeners (run_panel cs (initial_world as))) \<le> 2"
    by (simp split: if_splits)
  then show ?thesis using inv m len by blast
qed

theorem dismissal_listeners_balanced_witness:
  "map fst (window_listeners (run_panel
      [ShowPanel https_page anchor_button, ShowPanel https_page anchor_button]
      (initial_world [ext_A]))) = [PointerDown, KeyDown]
   \<and> window_listeners (run_panel
      [ShowPanel https_page anchor_button, HidePanel] (initial_world [ext_A])) = []"
proof -
  let ?w = "showPanel https_page anchor_button (initial_world [ext_A])"
  have inv: "panel_inv ?w" by (rule showPanel_inv [OF initial_inv])
  have o: "isOpen ?w" by (simp add: shown_world)
  have "isOpen (showPanel https_page anchor_button ?w)"
    using showPanel_opens [of anchor_button ?w https_page] inv
    by (simp add: anchor_button_def https_page_def)
  then have 1: "isOpen (run_panel
      [ShowPanel https_page anchor_button, ShowPanel https_page anchor_button]
      (initial_world [ext_A]))"
    by (simp add: run_panel_def)
  have "\<not> isOpen (hidePanel ?w)" by (rule hidePanel_closed [OF inv])
  then have 2: "\<not> isOpen (run_panel
      [ShowPanel https_page anchor_button, HidePanel] (initial_world [ext_A]))"
    by (simp add: run_panel_def)
  show ?thesis
    using dismissal_listeners_balanced
            [of "[ShowPanel https_page anchor_button, ShowPanel https_page anchor_button]"
                "[ext_A]"]
          dismissal_listeners_balanced
            [of "[ShowPanel https_page anchor_button, HidePanel]" "[ext_A]"]
          1 2
    by simp
qed

text \<open>
  C10. A call of \<^verbatim>\<open>showPanel\<close> with a null anchor, or one in which the panel cannot be
  built because \<^verbatim>\<open>#mainPopupSet\<close> is missing, does not open the panel: the open flag,
  the bound closures, the listeners on the window and the recorded anchor are as before,
  so a closed panel stays closed without listeners, and the invariant of the panel state
  is kept.
\<close>

theorem showPanel_degenerate:
  assumes "targetButton = None \<or> (\<not> panel w \<and> \<not> has_mainPopupSet pg)"
  shows "isOpen (showPanel pg targetButton w) = isOpen w
       \<and> window_listeners (showPanel pg targetButton w) = window_listeners w
       \<and> boundOnGlobalPointerDown (showPanel pg targetButton w) = boundOnGlobalPointerDown w
       \<and> boundOnGlobalKeyDown (showPanel pg targetButton w) = boundOnGlobalKeyDown w
       \<and> lastAnchorButton (showPanel pg targetButton w) = lastAnchorButton w
       \<and> (panel_inv w \<longrightarrow> panel_inv (showPanel pg targetButton w))"
  using showPanel_noop(1-5) [OF assms] showPanel_inv [of w pg targetButton] by simp

theorem showPanel_degenerate_witness:
  "\<not> isOpen (showPanel bare_page anchor_button (initial_world [ext_A]))
   \<and> window_listeners (showPanel bare_page anchor_button (initial_world [ext_A])) = []
   \<and> lastAnchorButton (showPanel bare_page anchor_button (initial_world [ext_A])) = None
   \<and> \<not> isOpen (showPanel https_page None (initial_world [ext_A]))
   \<and> window_listeners (showPanel https_page None (initial_world [ext_A])) = []
   \<and> lastAnchorButton (showPanel https_page None (initial_world [ext_A])) = None"
proof -
  have a: "anchor_button = None
      \<or> (\<not> panel (initial_world [ext_A]) \<and> \<not> has_mainPopupSet bare_page)"
    by (simp add: initial_world_def bare_page_def)
  have b: "(None :: string option) = None
      \<or> (\<not> panel (initial_world [ext_A]) \<and> \<not> has_mainPopupSet https_page)"
    by simp
  have i: "\<not> isOpen (initial_world [ext_A])" "window_listeners (initial_world [ext_A]) = []"
    "lastAnchorButton (initial_world [ext_A]) = None"
    by (simp_all add: initial_world_def)
  show ?thesis
    using showPanel_degenerate [OF a] showPanel_degenerate [OF b] i by simp
qed

text \<open>
  C9 as the claim states it fails: \<^verbatim>\<open>cleanup\<close> on an open panel leaves both dismissal
  listeners on the window, their closures bound and the panel marked open.
\<close>

theorem cleanup_leaves_dismissal_listeners:
  "window_listeners (cleanup (showPanel https_page anchor_button (initial_world [ext_A])))
     = [(PointerDown, 0), (KeyDown, 1)]
   \<and> boundOnGlobalPointerDown
       (cleanup (showPanel https_page anchor_button (initial_world [ext_A]))) = Some 0
   \<and> boundOnGlobalKeyDown
       (cleanup (showPanel https_page anchor_button (initial_world [ext_A]))) = Some 1
   \<and> isOpen (cleanup (showPanel https_page anchor_button (initial_world [ext_A])))"
  by (simp add: shown_world cleanup_def hideExtensionContextMenu_def)

text \<open>
  C9, amended. \<^verbatim>\<open>cleanup\<close> removes the add-on change listener if one is registered, hides
  the extension context menu if it exists (and creates none), clears the recorded
  extension id and the menu reference and resets the extras-menu flag; it leaves the
  dismissal listeners, their closures, the open flag and the panel popup as they are.
  It is idempotent, and in the initial state, where nothing is registered, it changes
  nothing.
\<close>

theorem cleanup_effect:
  "addonListener (cleanup w) = False
   \<and> addon_listeners (cleanup w)
       = (if addonListener w then addon_listeners w - 1 else addon_listeners w)
   \<and> currentContextMenuExtensionId (cleanup w) = None
   \<and> currentContextMenu (cleanup w) = False
   \<and> extrasMenuListenersSetup (cleanup w) = False
   \<and> window_listeners (cleanup w) = window_listeners w
   \<and> boundOnGlobalPointerDown (cleanup w) = boundOnGlobalPointerDown w
   \<and> boundOnGlobalKeyDown (cleanup w) = boundOnGlobalKeyDown w
   \<and> isOpen (cleanup w) = isOpen w
   \<and> cleanup (cleanup w) = cleanup w
   \<and> cleanup (initial_world as) = initial_world as
   \<and> extension_menu (cleanup w) = map_option (\<lambda>shown. False) (extension_menu w)
   \<and> popup_open (cleanup w) = popup_open w"
proof -
  have idem: "cleanup (cleanup w) = cleanup w"
    by (simp add: cleanup_def hideExtensionContextMenu_def Let_def option.map_comp comp_def)
  have init: "cleanup (initial_world as) = initial_world as"
    by (simp add: cleanup_def hideExtensionContextMenu_def initial_world_def)
  show ?thesis
    using idem init by (simp add: cleanup_def hideExtensionContextMenu_def Let_def)
qed

theorem cleanup_effect_witness:
  "addon_listeners (cleanup (showPanel https_page anchor_button (initial_world [ext_A]))) = 0
   \<and> \<not> addonListener (cleanup (showPanel https_page anchor_button (initial_world [ext_A])))
   \<and> cleanup (cleanup (showPanel https_page anchor_button (initial_world [ext_A])))
       = cleanup (showPanel https_page anchor_button (initial_world [ext_A]))
   \<and> extension_menu
       (cleanup (showExtensionContextMenu https_page ''a@example.org''
          (showPanel https_page anchor_button (initial_world [ext_A])))) = Some False
   \<and> extension_menu (cleanup (showPanel https_page anchor_button (initial_world [ext_A])))
       = None"
proof -
  have a: "addonListener (showPanel https_page anchor_button (initial_world [ext_A]))"
    "addon_listeners (showPanel https_page anchor_button (initial_world [ext_A])) = 1"
    "extension_menu (showPanel https_page anchor_button (initial_world [ext_A])) = None"
    by (simp_all add: shown_world)
  have m: "extension_menu (showExtensionContextMenu https_page ''a@example.org''
          (showPanel https_page anchor_button (initial_world [ext_A]))) = Some True"
    by (simp add: showExtensionContextMenu_def Let_def https_page_def)
  show ?thesis
    using cleanup_effect [of "showPanel https_page anchor_button (initial_world [ext_A])" "[]"]
      cleanup_effect [of "showExtensionContextMenu https_page ''a@example.org''
          (showPanel https_page anchor_button (initial_world [ext_A]))" "[]"] a m
    by simp
qed

section \<open>Action handlers: helper lemmas\<close>

lemma call_fields:
  "isOpen (call e w) = isOpen w"
  "panel (call e w) = panel w"
  "currentContextMenuExtensionId (call e w) = currentContextMenuExtensionId w"
  "addons (call e w) = addons w"
  "document_panel (call e w) = document_panel w"
  "effects (call e w) = effects w @ [e]"
  by (simp_all add: call_def)

lemma hidePanel_fields:
  "panel (hidePanel w) = panel w"
  "currentContextMenuExtensionId (hidePanel w) = currentContextMenuExtensionId w"
  "addons (hidePanel w) = addons w"
  "document_panel (hidePanel w) = document_panel w"
  "effects (hidePanel w) = effects w"
  by (simp_all add: hidePanel_def removePanelGlobalHandlers_def Let_def split: option.splits)

lemma hidePanel_closes: "panel w \<Longrightarrow> \<not> isOpen (hidePanel w)"
  by (simp add: hidePanel_def removePanelGlobalHandlers_fields)

lemma manageExtension_menu_id:
  "currentContextMenuExtensionId (manageExtension hc i w) = currentContextMenuExtensionId w"
  by (simp add: manageExtension_def Let_def call_fields hidePanel_fields
      split: sum.splits option.splits)

lemma pinExtensionToToolbar_menu_id:
  "currentContextMenuExtensionId (pinExtensionToToolbar hc ph i w)
     = currentContextMenuExtensionId w"
  by (simp add: pinExtensionToToolbar_def call_fields hidePanel_fields manageExtension_menu_id
      split: sum.splits bool.splits)

lemma removeExtension_menu_id:
  "currentContextMenuExtensionId (removeExtension hc i w) = currentContextMenuExtensionId w"
  by (simp add: removeExtension_def Let_def updateExtensions_def call_fields hidePanel_fields
      manageExtension_menu_id split: sum.splits option.splits)

lemma reportExtension_menu_id:
  "currentContextMenuExtensionId (reportExtension hc i w) = currentContextMenuExtensionId w"
  by (simp add: reportExtension_def Let_def call_fields hidePanel_fields split: sum.splits)

lemma updateExtensionImageState_fields:
  "panel (updateExtensionImageState hc i b w) = panel w"
  "isOpen (updateExtensionImageState hc i b w) = isOpen w"
  "addons (updateExtensionImageState hc i b w) = addons w"
  "effects (updateExtensionImageState hc i b w) = effects w"
  by (simp_all add: updateExtensionImageState_def Let_def
      split: option.splits node.splits sum.splits)

lemma primary_remove_loop_fields:
  "panel (snd (primary_remove_loop ck cs n w)) = panel w"
  "effects (snd (primary_remove_loop ck cs n w)) = effects w @ map PrimaryRemove cs"
  by (induction cs arbitrary: n w) (simp_all add: call_fields)

lemma fallback_remove_loop_fields:
  "panel (snd (fallback_remove_loop ck cs nf w)) = panel w"
  "effects (snd (fallback_remove_loop ck cs nf w)) = effects w @ map FallbackRemove cs"
  by (induction ck cs nf w rule: fallback_remove_loop.induct) (simp_all add: call_fields)

lemma fallback_removal_panel: "panel (snd (fallback_removal ck h w)) = panel w"
  by (simp add: fallback_removal_def Let_def call_fields fallback_remove_loop_fields
      prod.case_eq_if split: sum.splits)

lemma cookie_removal_panel: "panel (snd (cookie_removal ck h w)) = panel w"
  by (simp add: cookie_removal_def Let_def call_fields fallback_removal_panel
      primary_remove_loop_fields prod.case_eq_if split: sum.splits)

lemma clearCookies_closes: "panel w \<Longrightarrow> \<not> isOpen (clearCookies ck pg w)"
proof -
  assume p: "panel w"
  have "panel (case cookie_removal ck h w of (Some e, w1) \<Rightarrow> w1
                | (None, w1) \<Rightarrow> call Reload w1)" for h
    using cookie_removal_panel [of ck h w] p
    by (simp add: call_fields prod.case_eq_if split: option.splits)
  then show ?thesis
    using p by (auto simp: clearCookies_def hidePanel_closes split: option.splits sum.splits)
qed

lemma clearCache_closes: "panel w \<Longrightarrow> \<not> isOpen (clearCache hc pg w)"
  by (auto simp: clearCache_def Let_def hidePanel_closes call_fields
      split: option.splits sum.splits)

lemma simple_handlers_close:
  "panel w \<Longrightarrow> \<not> isOpen (manageExtensions w)"
  "panel w \<Longrightarrow> \<not> isOpen (showPagePermissions w)"
  by (simp_all add: manageExtensions_def showPagePermissions_def hidePanel_closes call_fields)

lemma openExtensionsPage_closes:
  "panel w \<Longrightarrow> \<not> loadURI_available hc \<or> loadURI hc = Inr () \<Longrightarrow>
     \<not> isOpen (snd (openExtensionsPage hc w))"
  by (auto simp: openExtensionsPage_def Let_def hidePanel_closes call_fields)

lemma openExtensionsPage_throws:
  "loadURI_available hc \<Longrightarrow> loadURI hc = Inl e \<Longrightarrow>
     fst (openExtensionsPage hc w) = Some e
     \<and> isOpen (snd (openExtensionsPage hc w)) = isOpen w"
  by (simp add: openExtensionsPage_def Let_def call_fields)

lemma manageExtension_panel: "panel (manageExtension hc i w) = panel w"
  by (simp add: manageExtension_def Let_def call_fields hidePanel_fields
      split: sum.splits option.splits)

lemma manageExtension_not_found_closes:
  "panel w \<Longrightarrow> \<not> lookup_throws hc \<Longrightarrow> find (\<lambda>a. addon_id a = i) (addons w) = None \<Longrightarrow>
     \<not> isOpen (manageExtension hc i w)"
  by (simp add: manageExtension_def getAddonByID_def hidePanel_closes)

lemma manageExtension_found_closes:
  "panel w \<Longrightarrow> \<not> lookup_throws hc \<Longrightarrow> find (\<lambda>a. addon_id a = i) (addons w) = Some a \<Longrightarrow>
     optionsUrl a = None \<or> optionsUrl a = Some [] \<or> (optionsUrl a = Some u \<and> addTab hc u = Inr ())
     \<Longrightarrow> \<not> isOpen (manageExtension hc i w)"
  by (auto simp: manageExtension_def getAddonByID_def Let_def call_fields hidePanel_closes
      split: if_splits)

lemma manageExtension_lookup_throws:
  "lookup_throws hc \<Longrightarrow> manageExtension hc i w = w"
  by (simp add: manageExtension_def getAddonByID_def)

lemma manageExtension_tab_throws:
  "\<not> lookup_throws hc \<Longrightarrow> find (\<lambda>a. addon_id a = i) (addons w) = Some a \<Longrightarrow>
     optionsUrl a = Some u \<Longrightarrow> u \<noteq> [] \<Longrightarrow> addTab hc u = Inl e \<Longrightarrow>
     isOpen (manageExtension hc i w) = isOpen w"
  by (simp add: manageExtension_def getAddonByID_def Let_def call_fields)

lemma toggle_closes:
  "panel w \<Longrightarrow> \<not> lookup_throws hc \<Longrightarrow> find (\<lambda>a. addon_id a = i) (addons w) = Some a \<Longrightarrow>
     set_enabled hc = Inr () \<Longrightarrow> \<not> isOpen (snd (toggleExtensionState hc i w))"
  by (simp add: toggleExtensionState_def getAddonByID_def Let_def call_fields
      hidePanel_closes updateExtensionImageState_fields)

lemma toggle_not_found:
  "\<not> lookup_throws hc \<Longrightarrow> find (\<lambda>a. addon_id a = i) (addons w) = None \<Longrightarrow>
     snd (toggleExtensionState hc i w) = w"
  by (simp add: toggleExtensionState_def getAddonByID_def)

lemma toggle_lookup_throws:
  "lookup_throws hc \<Longrightarrow> snd (toggleExtensionState hc i w) = w"
  by (simp add: toggleExtensionState_def getAddonByID_def)

lemma toggle_call_throws:
  "\<not> lookup_throws hc \<Longrightarrow> find (\<lambda>a. addon_id a = i) (addons w) = Some a \<Longrightarrow>
     set_enabled hc = Inl e \<Longrightarrow> isOpen (snd (toggleExtensionState hc i w)) = isOpen w"
  by (simp add: toggleExtensionState_def getAddonByID_def Let_def call_fields)

lemma popup_call_throws:
  "getByID (ext hc) i = Inr True \<Longrightarrow> browserActionFor (ext hc) i = Inr True \<Longrightarrow>
     openPopup hc = Inl e \<Longrightarrow> isOpen (openExtensionPopup hc i w) = isOpen w"
  by (simp add: openExtensionPopup_def Let_def call_fields)

lemma popup_lookup_throws:
  "getByID (ext hc) i = Inl e \<or> (getByID (ext hc) i = Inr True \<and> browserActionFor (ext hc) i = Inl e)
     \<Longrightarrow> openExtensionPopup hc i w = w"
  by (auto simp: openExtensionPopup_def)

lemma popup_falls_to_toggle:
  "getByID (ext hc) i = Inr False
     \<or> (getByID (ext hc) i = Inr True \<and> browserActionFor (ext hc) i = Inr False)
     \<Longrightarrow> openExtensionPopup hc i w = snd (toggleExtensionState hc i w)"
  by (auto simp: openExtensionPopup_def)

lemma popup_closes:
  "panel w \<Longrightarrow> getByID (ext hc) i = Inr True \<Longrightarrow> browserActionFor (ext hc) i = Inr True \<Longrightarrow>
     openPopup hc = Inr () \<Longrightarrow> \<not> isOpen (openExtensionPopup hc i w)"
  by (simp add: openExtensionPopup_def Let_def call_fields hidePanel_closes)

lemma pin_closes:
  "panel w \<Longrightarrow> getByID (ext hc) i = Inr True \<Longrightarrow> \<not> isOpen (pinExtensionToToolbar hc ph i w)"
  by (auto simp: pinExtensionToToolbar_def call_fields hidePanel_closes manageExtension_panel
      split: sum.splits bool.splits)

lemma pin_not_found:
  "getByID (ext hc) i = Inr False \<or> getByID (ext hc) i = Inl e \<Longrightarrow>
     pinExtensionToToolbar hc ph i w = w"
  by (auto simp: pinExtensionToToolbar_def)

lemma report_closes:
  "panel w \<Longrightarrow> addTab hc (''https://addons.mozilla.org/firefox/feedback/addon/'' @ i @ ''/'') = Inr ()
     \<Longrightarrow> \<not> isOpen (reportExtension hc i w)"
  by (simp add: reportExtension_def Let_def call_fields hidePanel_closes)

lemma report_call_throws:
  "addTab hc (''https://addons.mozilla.org/firefox/feedback/addon/'' @ i @ ''/'') = Inl e
     \<Longrightarrow> isOpen (reportExtension hc i w) = isOpen w"
  by (simp add: reportExtension_def Let_def call_fields)

lemma remove_declined:
  "\<not> confirm hc \<Longrightarrow> removeExtension hc i w = w"
  by (simp add: removeExtension_def split: sum.splits option.splits)

lemma remove_not_found:
  "lookup_throws hc \<or> find (\<lambda>a. addon_id a = i) (addons w) = None \<Longrightarrow>
     removeExtension hc i w = w"
  by (auto simp: removeExtension_def getAddonByID_def)

lemma remove_unavailable:
  "\<not> lookup_throws hc \<Longrightarrow> find (\<lambda>a. addon_id a = i) (addons w) = Some a \<Longrightarrow> confirm hc \<Longrightarrow>
     \<not> has_uninstall a \<Longrightarrow> \<not> has_remove a \<Longrightarrow>
     removeExtension hc i w = manageExtension hc i w"
  by (simp add: removeExtension_def getAddonByID_def)

lemma remove_call_throws:
  "\<not> lookup_throws hc \<Longrightarrow> find (\<lambda>a. addon_id a = i) (addons w) = Some a \<Longrightarrow> confirm hc \<Longrightarrow>
     has_uninstall a \<or> has_remove a \<Longrightarrow> uninstall hc = Inl e \<Longrightarrow>
     isOpen (removeExtension hc i w) = isOpen w"
  by (auto simp: removeExtension_def getAddonByID_def Let_def call_fields)

lemma primary_remove_loop_count:
  "fst (primary_remove_loop ck cs n w)
     = n + length (filter (\<lambda>c. primary_remove ck c = Inr ()) cs)"
  by (induction cs arbitrary: n w) (auto split: sum.splits)

lemma fallback_remove_loop_count:
  "fst (fallback_remove_loop ck cs (r, f) w)
     = (r + length (filter (\<lambda>c. services_remove ck c = Inr ()) cs),
        f + length (filter (\<lambda>c. services_remove ck c \<noteq> Inr ()) cs))"
  by (induction cs arbitrary: r f w) (auto split: sum.splits)

lemma fallback_removal_trace:
  "effects (snd (fallback_removal ck h w))
     = effects w @ FallbackGetCookies h #
         (case services_getCookies ck h of
            Inl e \<Rightarrow> []
          | Inr cs \<Rightarrow>
              if has_removeAllFromHost ck
              then RemoveAllFromHost h #
                     (case removeAllFromHost ck of Inl e \<Rightarrow> [] | Inr u \<Rightarrow> [LogClearedAll h])
              else map FallbackRemove cs @
                     [LogFallbackDone h
                        (length (filter (\<lambda>c. services_remove ck c = Inr ()) cs))
                        (length (filter (\<lambda>c. services_remove ck c \<noteq> Inr ()) cs))])"
  by (simp add: fallback_removal_def Let_def call_fields fallback_remove_loop_fields
      fallback_remove_loop_count prod.case_eq_if split: sum.splits)

lemma cookie_removal_trace:
  "effects (snd (cookie_removal ck h w))
     = (case primary_import ck of
          Inl e \<Rightarrow> effects (snd (fallback_removal ck h (call ImportCookieManager w)))
        | Inr u \<Rightarrow>
            (case primary_getCookies ck h of
               Inl e \<Rightarrow> effects (snd (fallback_removal ck h
                          (call (PrimaryGetCookies h) (call ImportCookieManager w))))
             | Inr cs \<Rightarrow>
                 effects w @ [ImportCookieManager, PrimaryGetCookies h] @ map PrimaryRemove cs @
                   [LogPrimaryDone h
                      (length (filter (\<lambda>c. primary_remove ck c = Inr ()) cs))]))"
  by (simp add: cookie_removal_def Let_def call_fields primary_remove_loop_fields
      primary_remove_loop_count prod.case_eq_if split: sum.splits)


lemma fallback_invocations_simps:
  "fallback_invocations [] = 0"
  "fallback_invocations (xs @ ys) = fallback_invocations xs + fallback_invocations ys"
  "fallback_invocations (e # xs) = (if is_fallback_entry e then 1 else 0) + fallback_invocations xs"
  "fallback_invocations (map PrimaryRemove cs) = 0"
  "fallback_invocations (map FallbackRemove cs) = 0"
  by (simp_all add: fallback_invocations_def filter_empty_conv)

lemma reloads_simps:
  "reloads [] = 0"
  "reloads (xs @ ys) = reloads xs + reloads ys"
  "reloads (e # xs) = (if e = Reload then 1 else 0) + reloads xs"
  "reloads (map PrimaryRemove cs) = 0"
  "reloads (map FallbackRemove cs) = 0"
  by (auto simp: reloads_def count_list_0_iff)

lemma fallback_removal_effects:
  "fallback_invocations (effects (snd (fallback_removal ck h w)))
     = fallback_invocations (effects w) + 1"
  "reloads (effects (snd (fallback_removal ck h w))) = reloads (effects w)"
  "fst (fallback_removal ck h w)
     = (case services_getCookies ck h of Inl e \<Rightarrow> Some e | Inr cs \<Rightarrow> None)"
  by (simp_all add: fallback_removal_def Let_def call_fields fallback_remove_loop_fields
      fallback_invocations_simps reloads_simps prod.case_eq_if split: sum.splits)

lemma cookie_removal_fallback:
  assumes "primary_import ck = Inl e \<or> primary_getCookies ck h = Inl e"
  shows "fallback_invocations (effects (snd (cookie_removal ck h w)))
           = fallback_invocations (effects w) + 1"
    and "reloads (effects (snd (cookie_removal ck h w))) = reloads (effects w)"
    and "fst (cookie_removal ck h w)
           = (case services_getCookies ck h of Inl e \<Rightarrow> Some e | Inr cs \<Rightarrow> None)"
  using assms
  by (auto simp: cookie_removal_def Let_def call_fields fallback_removal_effects
      fallback_invocations_simps reloads_simps split: sum.splits)

lemma cookie_removal_primary:
  assumes "primary_import ck = Inr ()" and "primary_getCookies ck h = Inr cs"
  shows "fallback_invocations (effects (snd (cookie_removal ck h w)))
           = fallback_invocations (effects w)"
    and "reloads (effects (snd (cookie_removal ck h w))) = reloads (effects w)"
    and "fst (cookie_removal ck h w) = None"
  using assms
  by (simp_all add: cookie_removal_def Let_def call_fields primary_remove_loop_fields
      fallback_invocations_simps reloads_simps prod.case_eq_if)

lemma cookie_removal_at_most_once:
  "fallback_invocations (effects (snd (cookie_removal ck h w)))
     \<le> fallback_invocations (effects w) + 1"
  by (simp add: cookie_removal_def Let_def call_fields primary_remove_loop_fields
      fallback_removal_effects fallback_invocations_simps prod.case_eq_if split: sum.splits)

lemma clearCookies_effects:
  assumes "currentURI pg = Some u" and "host u = Inr h" and "h \<noteq> []"
  shows "effects (clearCookies ck pg w)
           = (case fst (cookie_removal ck h w) of
                Some e \<Rightarrow> effects (snd (cookie_removal ck h w))
              | None \<Rightarrow> effects (snd (cookie_removal ck h w)) @ [Reload])"
  using assms
  by (simp add: clearCookies_def hidePanel_fields call_fields prod.case_eq_if
      split: option.splits)

section \<open>Action handlers: the claims\<close>

lemma process_ext_A:
  "fst (processExtensions no_actions initial_container [ext_A]) =
     [Wrapper ''a@example.org''
        (Some \<lparr> src = ''chrome://mozapps/skin/extensions/extension.svg'',
                tooltiptext = ''Disable Alpha'', enabled = ''true'' \<rparr>),
      Other ''add-extension-button'']"
  by (simp add: processExtensions_def
      removeUninstalledExtensions_def addNewExtension_def createExtensionWrapper_def
      createExtensionImage_def getExtensionIconSrc_def getExtensionTooltip_def
      bool_toString_def FALLBACK_ICON_def initial_container_def
      ext_A_def no_actions_def)

lemma loadExtensions_fields:
  "panel (loadExtensions h w) = panel w"
  "isOpen (loadExtensions h w) = isOpen w"
  "addons (loadExtensions h w) = addons w"
  "effects (loadExtensions h w) = effects w"
  "currentContextMenuExtensionId (loadExtensions h w) = currentContextMenuExtensionId w"
  "extensionMenuListenersSetup (loadExtensions h w) = extensionMenuListenersSetup w"
  "extension_menu (loadExtensions h w) = extension_menu w"
  "document_panel (loadExtensions h w)
     = map_option (\<lambda>p. p\<lparr> container := fst (processExtensions h (container p)
                            (filter (\<lambda>a. \<not> isSystem a) (addons w))) \<rparr>) (document_panel w)"
  by (simp_all add: loadExtensions_def Let_def prod.case_eq_if split: option.splits)

lemma open_world_fields:
  "panel open_world"
  "isOpen open_world"
  "addons open_world = [ext_A]"
  "effects open_world = []"
  "currentContextMenuExtensionId open_world = None"
  "extensionMenuListenersSetup open_world = False"
  "extension_menu open_world = None"
  by (simp_all add: open_world_def loadExtensions_fields shown_world)

lemma open_world_document:
  "document_panel open_world =
     Some \<lparr> container =
              [Wrapper ''a@example.org''
                 (Some \<lparr> src = ''chrome://mozapps/skin/extensions/extension.svg'',
                         tooltiptext = ''Disable Alpha'', enabled = ''true'' \<rparr>),
               Other ''add-extension-button''],
            security_src = Some ''chrome://browser/skin/zen-icons/security.svg'' \<rparr>"
proof -
  have "filter (\<lambda>a. \<not> isSystem a) [ext_A] = [ext_A]" by (simp add: ext_A_def)
  then show ?thesis
    by (simp add: open_world_def loadExtensions_fields shown_world process_ext_A)
qed

text \<open>
  C7. \<^verbatim>\<open>updateSecurityStatus\<close> picks the icon in priority order: a sharing indicator
  gives the shield-check icon whatever else holds; otherwise a permissions indicator gives
  the shield-exclamation icon; otherwise the scheme decides: https the security icon,
  http the lock-open icon, anything else (or no URI) the info icon. When the status image
  or the identity permission box is missing, the image is left as it is and one line is
  logged.
\<close>

theorem security_icon_priority:
  "(identityPermissionBox pg = Some box \<and> hasSharingIcon box \<longrightarrow>
      fst (updateSecurityStatus pg (Some old))
        = Some (Some ''chrome://browser/skin/zen-icons/shield-check.svg''))
   \<and> (identityPermissionBox pg = Some box \<and> \<not> hasSharingIcon box \<and> hasPermissions box \<longrightarrow>
      fst (updateSecurityStatus pg (Some old))
        = Some (Some ''chrome://browser/skin/zen-icons/shield-exclamation.svg''))
   \<and> (identityPermissionBox pg = Some box \<and> \<not> hasSharingIcon box \<and> \<not> hasPermissions box
        \<and> currentURI pg = Some u \<and> scheme u = ''https'' \<longrightarrow>
      fst (updateSecurityStatus pg (Some old))
        = Some (Some ''chrome://browser/skin/zen-icons/security.svg''))
   \<and> (identityPermissionBox pg = Some box \<and> \<not> hasSharingIcon box \<and> \<not> hasPermissions box
        \<and> currentURI pg = Some u \<and> scheme u = ''http'' \<longrightarrow>
      fst (updateSecurityStatus pg (Some old))
        = Some (Some ''chrome://browser/skin/zen-icons/lock-open.svg''))
   \<and> (identityPermissionBox pg = Some box \<and> \<not> hasSharingIcon box \<and> \<not> hasPermissions box
        \<and> (currentURI pg = None
            \<or> (currentURI pg = Some u \<and> scheme u \<noteq> ''https'' \<and> scheme u \<noteq> ''http'')) \<longrightarrow>
      fst (updateSecurityStatus pg (Some old))
        = Some (Some ''chrome://browser/skin/zen-icons/info.svg''))
   \<and> (securityImage = None \<or> identityPermissionBox pg = None \<longrightarrow>
      fst (updateSecurityStatus pg securityImage) = securityImage
      \<and> (snd (updateSecurityStatus pg securityImage)
            = LogInfo ''Security status image not found''
          \<or> snd (updateSecurityStatus pg securityImage)
            = LogInfo ''Identity permission box not found''))"
  by (auto simp: updateSecurityStatus_def Let_def split: option.splits)

theorem security_icon_priority_witness:
  "fst (updateSecurityStatus https_page (Some None))
     = Some (Some ''chrome://browser/skin/zen-icons/security.svg'')
   \<and> fst (updateSecurityStatus
        (https_page\<lparr> identityPermissionBox :=
            Some \<lparr> hasSharingIcon = True, hasPermissions = True \<rparr> \<rparr>) (Some None))
     = Some (Some ''chrome://browser/skin/zen-icons/shield-check.svg'')
   \<and> fst (updateSecurityStatus bare_page (Some (Some ''old.svg''))) = Some (Some ''old.svg'')"
proof (intro conjI)
  show "fst (updateSecurityStatus https_page (Some None))
     = Some (Some ''chrome://browser/skin/zen-icons/security.svg'')"
    by (rule security_icon_priority
          [where box = "\<lparr> hasSharingIcon = False, hasPermissions = False \<rparr>"
             and u = "\<lparr> scheme = ''https'', host = Inr ''example.org'' \<rparr>",
           THEN conjunct2, THEN conjunct2, THEN conjunct1, rule_format])
       (simp add: https_page_def)
  show "fst (updateSecurityStatus
        (https_page\<lparr> identityPermissionBox :=
            Some \<lparr> hasSharingIcon = True, hasPermissions = True \<rparr> \<rparr>) (Some None))
     = Some (Some ''chrome://browser/skin/zen-icons/shield-check.svg'')"
    by (rule security_icon_priority
          [where box = "\<lparr> hasSharingIcon = True, hasPermissions = True \<rparr>",
           THEN conjunct1, rule_format])
       simp
  show "fst (updateSecurityStatus bare_page (Some (Some ''old.svg''))) = Some (Some ''old.svg'')"
    by (rule security_icon_priority
          [THEN conjunct2, THEN conjunct2, THEN conjunct2, THEN conjunct2, THEN conjunct2,
           rule_format, THEN conjunct1])
       (simp add: bare_page_def)
qed

lemma menu_command_menu_id:
  "currentContextMenuExtensionId (menu_command hc ph item w)
     = currentContextMenuExtensionId w"
  by (cases item)
     (simp_all add: menu_command_def manageExtension_menu_id pinExtensionToToolbar_menu_id
        removeExtension_menu_id reportExtension_menu_id split: option.splits)

lemma showExtensionContextMenu_menu_id:
  "has_mainPopupSet pg \<Longrightarrow>
     currentContextMenuExtensionId (showExtensionContextMenu pg i w) = Some i
     \<and> currentContextMenu (showExtensionContextMenu pg i w)
     \<and> extension_menu (showExtensionContextMenu pg i w) = Some True
     \<and> extensionMenuListenersSetup (showExtensionContextMenu pg i w)"
  by (auto simp: showExtensionContextMenu_def setupExtensionMenuListeners_def Let_def)

text \<open>
  C4 as the claim states it fails: after the menu was opened for an extension and the
  pin item was chosen, with every host call succeeding, the recorded extension id is
  still that of the extension; the same holds for the other three items.
\<close>

theorem menu_action_keeps_target:
  "currentContextMenuExtensionId
     (menu_command working_host unified_host PinItem
        (showExtensionContextMenu https_page ''a@example.org'' open_world))
     = Some ''a@example.org''
   \<and> currentContextMenuExtensionId
     (menu_command working_host unified_host ReportItem
        (showExtensionContextMenu https_page ''a@example.org'' open_world))
     = Some ''a@example.org''
   \<and> effects
     (menu_command working_host unified_host PinItem
        (showExtensionContextMenu https_page ''a@example.org'' open_world))
     = [TogglePinned ''a@example.org'']"
proof -
  have m: "has_mainPopupSet https_page" by (simp add: https_page_def)
  have e: "effects (showExtensionContextMenu https_page ''a@example.org'' open_world) = []"
    by (simp add: showExtensionContextMenu_def setupExtensionMenuListeners_def Let_def
        open_world_fields https_page_def)
  have "effects (menu_command working_host unified_host PinItem
          (showExtensionContextMenu https_page ''a@example.org'' open_world))
        = [TogglePinned ''a@example.org'']"
    using showExtensionContextMenu_menu_id [OF m, of "''a@example.org''" open_world] e
    by (simp add: menu_command_def pinExtensionToToolbar_def working_host_def
        unified_host_def no_actions_def hidePanel_fields call_fields)
  then show ?thesis
    using showExtensionContextMenu_menu_id [OF m, of "''a@example.org''" open_world]
    by (simp add: menu_command_menu_id)
qed

text \<open>
  C4, amended. Opening the menu for an extension records its id, whatever was recorded
  before (nothing, or another id), and marks the menu open; no menu action changes the
  recorded id; it is cleared by \<^verbatim>\<open>hideExtensionContextMenu\<close>, which \<^verbatim>\<open>cleanup\<close> calls.
\<close>

theorem menu_state:
  "(has_mainPopupSet pg \<longrightarrow>
      currentContextMenuExtensionId (showExtensionContextMenu pg i w) = Some i
      \<and> currentContextMenu (showExtensionContextMenu pg i w)
      \<and> extension_menu (showExtensionContextMenu pg i w) = Some True)
   \<and> currentContextMenuExtensionId (menu_command hc ph item w)
       = currentContextMenuExtensionId w
   \<and> currentContextMenuExtensionId (hideExtensionContextMenu w) = None
   \<and> \<not> currentContextMenu (hideExtensionContextMenu w)
   \<and> currentContextMenuExtensionId (cleanup w) = None"
proof -
  have 1: "has_mainPopupSet pg \<longrightarrow>
      currentContextMenuExtensionId (showExtensionContextMenu pg i w) = Some i
      \<and> currentContextMenu (showExtensionContextMenu pg i w)
      \<and> extension_menu (showExtensionContextMenu pg i w) = Some True"
    using showExtensionContextMenu_menu_id [of pg i w] by blast
  have 3: "currentContextMenuExtensionId (hideExtensionContextMenu w) = None
   \<and> \<not> currentContextMenu (hideExtensionContextMenu w)
   \<and> currentContextMenuExtensionId (cleanup w) = None"
    by (simp add: hideExtensionContextMenu_def cleanup_def Let_def)
  show ?thesis using 1 menu_command_menu_id [of hc ph item w] 3 by blast
qed

theorem menu_state_witness:
  "currentContextMenuExtensionId
     (showExtensionContextMenu https_page ''b@example.org''
        (showExtensionContextMenu https_page ''a@example.org'' open_world))
     = Some ''b@example.org''
   \<and> currentContextMenuExtensionId
       (hideExtensionContextMenu
          (showExtensionContextMenu https_page ''a@example.org'' open_world)) = None"
proof -
  have m: "has_mainPopupSet https_page" by (simp add: https_page_def)
  show ?thesis
    using menu_state [of https_page "''b@example.org''"
                         "showExtensionContextMenu https_page ''a@example.org'' open_world"
                         working_host unified_host PinItem]
          menu_state [of https_page "''a@example.org''"
                         "showExtensionContextMenu https_page ''a@example.org'' open_world"
                         working_host unified_host PinItem] m
    by blast
qed

text \<open>
  C3 as the claim states it fails: with the panel open, choosing the pin item for an
  extension that has no policy returns before \<^verbatim>\<open>hidePanel\<close>, and reporting an extension
  when the tab cannot be opened ends in the catch block; both leave the panel open.
\<close>

theorem handlers_leave_panel_open:
  "isOpen open_world
   \<and> isOpen (pinExtensionToToolbar (working_host\<lparr> ext := no_policy \<rparr>) unified_host
               ''a@example.org'' open_world)
   \<and> isOpen (reportExtension tabs_fail ''a@example.org'' open_world)
   \<and> effects (reportExtension tabs_fail ''a@example.org'' open_world)
       = [AddTab ''https://addons.mozilla.org/firefox/feedback/addon/a@example.org/'']"
  by (simp add: pinExtensionToToolbar_def reportExtension_def no_policy_def tabs_fail_def
      call_fields open_world_fields Let_def)

text \<open>
  C3, amended. With the panel built, handler by handler:
  \<^item> the handlers of \<^verbatim>\<open>about:addons\<close>, of the page permissions, of the cache and of the
    cookies close the panel on every path, whatever their host calls do;
  \<^item> a declined removal confirmation leaves the whole state, the open flag and the
    add-ons included, as it was;
  \<^item> pinning closes the panel whenever the policy is found, whatever the pinning calls do;
    with no policy, or a throwing lookup, the state is left as it was;
  \<^item> the extension-store handler closes the panel when \<^verbatim>\<open>UC_API.Utils.loadURI\<close> is missing
    or returns; when that call throws, the exception leaves the handler and the open flag
    is as before;
  \<^item> a click on an entry closes the panel when the popup opens; it leaves the open flag as
    before when \<^verbatim>\<open>openPopup\<close> throws and the state as it was when a lookup of the policy or
    of the action throws; without a policy or an action it is the toggle;
  \<^item> the toggle closes the panel when the add-on is found and the host call returns; it
    leaves the state as it was when the add-on is not found or its lookup fails, and the
    open flag as before when the host call throws;
  \<^item> managing an extension closes the panel whenever the lookup of the add-on resolves,
    found or not, and the options tab, if there is one, opens; it leaves the state as it
    was when the lookup fails and the open flag as before when opening the tab throws;
  \<^item> reporting closes the panel when the tab opens and leaves the open flag as before when
    that throws;
  \<^item> removing leaves the state as it was when the add-on is not found or its lookup
    fails; with neither \<^verbatim>\<open>uninstall\<close> nor \<^verbatim>\<open>remove\<close> on the add-on it is the managing
    handler; when the uninstall throws the open flag is as before.
\<close>

theorem handlers_close_panel:
  assumes "panel w"
  shows "\<not> isOpen (manageExtensions w)
       \<and> \<not> isOpen (showPagePermissions w)
       \<and> \<not> isOpen (clearCache hc pg w)
       \<and> \<not> isOpen (clearCookies ck pg w)
       \<and> (\<not> confirm hc \<longrightarrow> removeExtension hc i w = w)
       \<and> (getByID (ext hc) i = Inr True \<longrightarrow> \<not> isOpen (pinExtensionToToolbar hc ph i w))
       \<and> (getByID (ext hc) i = Inr False \<or> getByID (ext hc) i = Inl e
            \<longrightarrow> pinExtensionToToolbar hc ph i w = w)
       \<and> (\<not> loadURI_available hc \<or> loadURI hc = Inr ()
            \<longrightarrow> \<not> isOpen (snd (openExtensionsPage hc w)))
       \<and> (loadURI_available hc \<and> loadURI hc = Inl e
            \<longrightarrow> fst (openExtensionsPage hc w) = Some e
                \<and> isOpen (snd (openExtensionsPage hc w)) = isOpen w)
       \<and> (getByID (ext hc) i = Inr True \<and> browserActionFor (ext hc) i = Inr True
            \<and> openPopup hc = Inr () \<longrightarrow> \<not> isOpen (openExtensionPopup hc i w))
       \<and> (getByID (ext hc) i = Inr True \<and> browserActionFor (ext hc) i = Inr True
            \<and> openPopup hc = Inl e \<longrightarrow> isOpen (openExtensionPopup hc i w) = isOpen w)
       \<and> (getByID (ext hc) i = Inl e
            \<or> (getByID (ext hc) i = Inr True \<and> browserActionFor (ext hc) i = Inl e)
            \<longrightarrow> openExtensionPopup hc i w = w)
       \<and> (getByID (ext hc) i = Inr False
            \<or> (getByID (ext hc) i = Inr True \<and> browserActionFor (ext hc) i = Inr False)
            \<longrightarrow> openExtensionPopup hc i w = snd (toggleExtensionState hc i w))
       \<and> (\<not> lookup_throws hc \<and> find (\<lambda>a. addon_id a = i) (addons w) = Some a
            \<and> set_enabled hc = Inr () \<longrightarrow> \<not> isOpen (snd (toggleExtensionState hc i w)))
       \<and> (lookup_throws hc \<or> find (\<lambda>a. addon_id a = i) (addons w) = None
            \<longrightarrow> snd (toggleExtensionState hc i w) = w)
       \<and> (\<not> lookup_throws hc \<and> find (\<lambda>a. addon_id a = i) (addons w) = Some a
            \<and> set_enabled hc = Inl e
            \<longrightarrow> isOpen (snd (toggleExtensionState hc i w)) = isOpen w)
       \<and> (\<not> lookup_throws hc \<and> find (\<lambda>a. addon_id a = i) (addons w) = None
            \<longrightarrow> \<not> isOpen (manageExtension hc i w))
       \<and> (\<not> lookup_throws hc \<and> find (\<lambda>a. addon_id a = i) (addons w) = Some a
            \<and> (optionsUrl a = None \<or> optionsUrl a = Some []
                \<or> (optionsUrl a = Some u \<and> addTab hc u = Inr ()))
            \<longrightarrow> \<not> isOpen (manageExtension hc i w))
       \<and> (lookup_throws hc \<longrightarrow> manageExtension hc i w = w)
       \<and> (\<not> lookup_throws hc \<and> find (\<lambda>a. addon_id a = i) (addons w) = Some a
            \<and> optionsUrl a = Some u \<and> u \<noteq> [] \<and> addTab hc u = Inl e
            \<longrightarrow> isOpen (manageExtension hc i w) = isOpen w)
       \<and> (addTab hc (''https://addons.mozilla.org/firefox/feedback/addon/'' @ i @ ''/'') = Inr ()
            \<longrightarrow> \<not> isOpen (reportExtension hc i w))
       \<and> (addTab hc (''https://addons.mozilla.org/firefox/feedback/addon/'' @ i @ ''/'') = Inl e
            \<longrightarrow> isOpen (reportExtension hc i w) = isOpen w)
       \<and> (lookup_throws hc \<or> find (\<lambda>a. addon_id a = i) (addons w) = None
            \<longrightarrow> removeExtension hc i w = w)
       \<and> (\<not> lookup_throws hc \<and> find (\<lambda>a. addon_id a = i) (addons w) = Some a \<and> confirm hc
            \<and> \<not> has_uninstall a \<and> \<not> has_remove a
            \<longrightarrow> removeExtension hc i w = manageExtension hc i w)
       \<and> (\<not> lookup_throws hc \<and> find (\<lambda>a. addon_id a = i) (addons w) = Some a \<and> confirm hc
            \<and> (has_uninstall a \<or> has_remove a) \<and> uninstall hc = Inl e
            \<longrightarrow> isOpen (removeExtension hc i w) = isOpen w)"
proof -
  have 1: "\<not> isOpen (manageExtensions w)" "\<not> isOpen (showPagePermissions w)"
    by (rule simple_handlers_close [OF assms])+
  have 2: "\<not> isOpen (clearCache hc pg w)" by (rule clearCache_closes [OF assms])
  have 3: "\<not> isOpen (clearCookies ck pg w)" by (rule clearCookies_closes [OF assms])
  have 4: "\<not> confirm hc \<longrightarrow> removeExtension hc i w = w"
    by (simp add: remove_declined)
  have 5: "getByID (ext hc) i = Inr True \<longrightarrow> \<not> isOpen (pinExtensionToToolbar hc ph i w)"
    using pin_closes [OF assms, of hc i ph] by simp
  have 6: "getByID (ext hc) i = Inr False \<or> getByID (ext hc) i = Inl e
            \<longrightarrow> pinExtensionToToolbar hc ph i w = w"
    by (rule impI) (rule pin_not_found)
  have 7: "\<not> loadURI_available hc \<or> loadURI hc = Inr ()
            \<longrightarrow> \<not> isOpen (snd (openExtensionsPage hc w))"
    by (rule impI) (rule openExtensionsPage_closes [OF assms])
  have 8: "loadURI_available hc \<and> loadURI hc = Inl e
            \<longrightarrow> fst (openExtensionsPage hc w) = Some e
                \<and> isOpen (snd (openExtensionsPage hc w)) = isOpen w"
    using openExtensionsPage_throws [of hc e w] by blast
  have 9: "getByID (ext hc) i = Inr True \<and> browserActionFor (ext hc) i = Inr True
            \<and> openPopup hc = Inr () \<longrightarrow> \<not> isOpen (openExtensionPopup hc i w)"
    using popup_closes [OF assms, of hc i] by simp
  have 10: "getByID (ext hc) i = Inr True \<and> browserActionFor (ext hc) i = Inr True
            \<and> openPopup hc = Inl e \<longrightarrow> isOpen (openExtensionPopup hc i w) = isOpen w"
    using popup_call_throws [of hc i e w] by blast
  have 11: "getByID (ext hc) i = Inl e
            \<or> (getByID (ext hc) i = Inr True \<and> browserActionFor (ext hc) i = Inl e)
            \<longrightarrow> openExtensionPopup hc i w = w"
    by (rule impI) (rule popup_lookup_throws)
  have 12: "getByID (ext hc) i = Inr False
            \<or> (getByID (ext hc) i = Inr True \<and> browserActionFor (ext hc) i = Inr False)
            \<longrightarrow> openExtensionPopup hc i w = snd (toggleExtensionState hc i w)"
    by (rule impI) (rule popup_falls_to_toggle)
  have 13: "\<not> lookup_throws hc \<and> find (\<lambda>a. addon_id a = i) (addons w) = Some a
            \<and> set_enabled hc = Inr () \<longrightarrow> \<not> isOpen (snd (toggleExtensionState hc i w))"
    using toggle_closes [OF assms, of hc i a] by simp
  have 14: "lookup_throws hc \<or> find (\<lambda>a. addon_id a = i) (addons w) = None
            \<longrightarrow> snd (toggleExtensionState hc i w) = w"
    using toggle_lookup_throws [of hc i w] toggle_not_found [of hc i w] by blast
  have 15: "\<not> lookup_throws hc \<and> find (\<lambda>a. addon_id a = i) (addons w) = Some a
            \<and> set_enabled hc = Inl e
            \<longrightarrow> isOpen (snd (toggleExtensionState hc i w)) = isOpen w"
    using toggle_call_throws [of hc i w a e] by blast
  have 16: "\<not> lookup_throws hc \<and> find (\<lambda>a. addon_id a = i) (addons w) = None
            \<longrightarrow> \<not> isOpen (manageExtension hc i w)"
    using manageExtension_not_found_closes [OF assms, of hc i] by blast
  have 17: "\<not> lookup_throws hc \<and> find (\<lambda>a. addon_id a = i) (addons w) = Some a
            \<and> (optionsUrl a = None \<or> optionsUrl a = Some []
                \<or> (optionsUrl a = Some u \<and> addTab hc u = Inr ()))
            \<longrightarrow> \<not> isOpen (manageExtension hc i w)"
    using manageExtension_found_closes [OF assms, of hc i a u] by blast
  have 18: "lookup_throws hc \<longrightarrow> manageExtension hc i w = w"
    by (simp add: manageExtension_lookup_throws)
  have 19: "\<not> lookup_throws hc \<and> find (\<lambda>a. addon_id a = i) (addons w) = Some a
            \<and> optionsUrl a = Some u \<and> u \<noteq> [] \<and> addTab hc u = Inl e
            \<longrightarrow> isOpen (manageExtension hc i w) = isOpen w"
    using manageExtension_tab_throws [of hc i w a u e] by blast
  have 20: "addTab hc (''https://addons.mozilla.org/firefox/feedback/addon/'' @ i @ ''/'') = Inr ()
            \<longrightarrow> \<not> isOpen (reportExtension hc i w)"
    by (rule impI) (rule report_closes [OF assms])
  have 21: "addTab hc (''https://addons.mozilla.org/firefox/feedback/addon/'' @ i @ ''/'') = Inl e
            \<longrightarrow> isOpen (reportExtension hc i w) = isOpen w"
    by (rule impI) (rule report_call_throws)
  have 22: "lookup_throws hc \<or> find (\<lambda>a. addon_id a = i) (addons w) = None
            \<longrightarrow> removeExtension hc i w = w"
    by (rule impI) (rule remove_not_found)
  have 23: "\<not> lookup_throws hc \<and> find (\<lambda>a. addon_id a = i) (addons w) = Some a \<and> confirm hc
            \<and> \<not> has_uninstall a \<and> \<not> has_remove a
            \<longrightarrow> removeExtension hc i w = manageExtension hc i w"
    using remove_unavailable [of hc i w a] by blast
  have 24: "\<not> lookup_throws hc \<and> find (\<lambda>a. addon_id a = i) (addons w) = Some a \<and> confirm hc
            \<and> (has_uninstall a \<or> has_remove a) \<and> uninstall hc = Inl e
            \<longrightarrow> isOpen (removeExtension hc i w) = isOpen w"
    using remove_call_throws [of hc i w a e] by blast
  show ?thesis by (intro conjI; fact)
qed

theorem handlers_close_panel_witness:
  "panel open_world
   \<and> \<not> isOpen (clearCookies no_cookie_api https_page open_world)
   \<and> \<not> isOpen (pinExtensionToToolbar working_host unified_host ''a@example.org'' open_world)
   \<and> removeExtension (working_host\<lparr> confirm := False \<rparr>) ''a@example.org'' open_world
       = open_world"
proof (intro conjI)
  show p: "panel open_world" by (rule open_world_fields)
  note h = handlers_close_panel [OF p]
  show "\<not> isOpen (clearCookies no_cookie_api https_page open_world)"
    by (rule h [THEN conjunct2, THEN conjunct2, THEN conjunct2, THEN conjunct1])
  have g: "getByID (ext working_host) ''a@example.org'' = Inr True"
    by (simp add: working_host_def no_actions_def)
  show "\<not> isOpen (pinExtensionToToolbar working_host unified_host ''a@example.org'' open_world)"
    by (rule h [THEN conjunct2, THEN conjunct2, THEN conjunct2, THEN conjunct2, THEN conjunct2,
                THEN conjunct1, rule_format, OF g])
  have c: "\<not> confirm (working_host\<lparr> confirm := False \<rparr>)" by simp
  show "removeExtension (working_host\<lparr> confirm := False \<rparr>) ''a@example.org'' open_world
       = open_world"
    by (rule h [THEN conjunct2, THEN conjunct2, THEN conjunct2, THEN conjunct2,
                THEN conjunct1, rule_format, OF c])
qed

text \<open>
  C8 as the claim states it fails. When the primary interface enumerates the cookies and
  every single removal throws, the failures are caught per cookie and the fallback
  interface is not entered at all. When the primary interface is missing and the
  enumeration of the fallback throws, the fallback is entered once and no reload is
  requested.
\<close>

theorem cookie_fallback_not_as_claimed:
  "primary_remove removals_fail ''sid'' = Inl HostError
   \<and> primary_remove removals_fail ''theme'' = Inl HostError
   \<and> effects (clearCookies removals_fail https_page open_world)
       = [ImportCookieManager, PrimaryGetCookies ''example.org'', PrimaryRemove ''sid'',
          PrimaryRemove ''theme'', LogPrimaryDone ''example.org'' 0, Reload]
   \<and> fallback_invocations (effects (clearCookies removals_fail https_page open_world)) = 0
   \<and> effects (clearCookies no_cookie_api https_page open_world)
       = [ImportCookieManager, FallbackGetCookies ''example.org'']
   \<and> reloads (effects (clearCookies no_cookie_api https_page open_world)) = 0"
proof -
  have a: "effects (clearCookies removals_fail https_page open_world)
       = [ImportCookieManager, PrimaryGetCookies ''example.org'', PrimaryRemove ''sid'',
          PrimaryRemove ''theme'', LogPrimaryDone ''example.org'' 0, Reload]"
    by (simp add: clearCookies_def cookie_removal_def removals_fail_def https_page_def
        hidePanel_fields call_fields open_world_fields primary_remove_loop_fields
        prod.case_eq_if Let_def)
  have b: "effects (clearCookies no_cookie_api https_page open_world)
       = [ImportCookieManager, FallbackGetCookies ''example.org'']"
    by (simp add: clearCookies_def cookie_removal_def fallback_removal_def no_cookie_api_def
        https_page_def hidePanel_fields call_fields open_world_fields Let_def)
  show ?thesis
    unfolding a b
    by (simp add: removals_fail_def fallback_invocations_def reloads_def)
qed

text \<open>
  C8, amended. For a page with a non-empty host:
  \<^item> when the primary cookie interface fails as a whole (its import or its enumeration
    throws), the fallback interface is entered exactly once, and if the fallback's
    enumeration returns, the host calls made are exactly: the import, the primary
    enumeration if the import returned, the fallback enumeration, then either one
    \<^verbatim>\<open>removeAllFromHost\<close> or one removal per cookie, and last one reload, whether or not
    the fallback's removals throw;
  \<^item> when the primary interface enumerates the cookies, the host calls made are exactly:
    the import, the enumeration, one removal per cookie and one reload; failures of
    single removals are caught per cookie and only lower the count that is logged, and
    the fallback is not entered;
  \<^item> in every case nothing is retried: the import is made once, each enumeration and the
    reload at most once, and the panel is closed.
\<close>

theorem cookie_fallback_single_tier:
  assumes "currentURI pg = Some u" and "host u = Inr h" and "h \<noteq> []"
  shows "(primary_import ck = Inl e \<or> primary_getCookies ck h = Inl e \<longrightarrow>
            fallback_invocations (effects (clearCookies ck pg w))
              = fallback_invocations (effects w) + 1
            \<and> (services_getCookies ck h = Inr cs \<longrightarrow>
                  reloads (effects (clearCookies ck pg w)) = reloads (effects w) + 1
                  \<and> last (effects (clearCookies ck pg w)) = Reload))
       \<and> (primary_import ck = Inr () \<and> primary_getCookies ck h = Inr cs \<longrightarrow>
            fallback_invocations (effects (clearCookies ck pg w))
              = fallback_invocations (effects w)
            \<and> reloads (effects (clearCookies ck pg w)) = reloads (effects w) + 1
            \<and> last (effects (clearCookies ck pg w)) = Reload)
       \<and> fallback_invocations (effects (clearCookies ck pg w))
            \<le> fallback_invocations (effects w) + 1
       \<and> (panel w \<longrightarrow> \<not> isOpen (clearCookies ck pg w))
       \<and> ((primary_import ck = Inl e \<or> primary_getCookies ck h = Inl e)
            \<and> services_getCookies ck h = Inr cs \<longrightarrow>
            effects (clearCookies ck pg w)
              = effects w
                @ ImportCookieManager
                # (if primary_import ck = Inr () then [PrimaryGetCookies h] else [])
                @ FallbackGetCookies h
                # (if has_removeAllFromHost ck
                   then RemoveAllFromHost h
                        # (if removeAllFromHost ck = Inr () then [LogClearedAll h] else [])
                   else map FallbackRemove cs
                        @ [LogFallbackDone h
                             (length (filter (\<lambda>c. services_remove ck c = Inr ()) cs))
                             (length (filter (\<lambda>c. services_remove ck c \<noteq> Inr ()) cs))])
                @ [Reload])
       \<and> (primary_import ck = Inr () \<and> primary_getCookies ck h = Inr cs \<longrightarrow>
            effects (clearCookies ck pg w)
              = effects w
                @ [ImportCookieManager, PrimaryGetCookies h]
                @ map PrimaryRemove cs
                @ [LogPrimaryDone h (length (filter (\<lambda>c. primary_remove ck c = Inr ()) cs)),
                   Reload])
       \<and> count_list (effects (clearCookies ck pg w)) ImportCookieManager
            = count_list (effects w) ImportCookieManager + 1
       \<and> count_list (effects (clearCookies ck pg w)) (PrimaryGetCookies h)
            \<le> count_list (effects w) (PrimaryGetCookies h) + 1
       \<and> reloads (effects (clearCookies ck pg w)) \<le> reloads (effects w) + 1"
proof -
  note eff = clearCookies_effects [OF assms, of ck w]
  have 1: "primary_import ck = Inl e \<or> primary_getCookies ck h = Inl e \<longrightarrow>
            fallback_invocations (effects (clearCookies ck pg w))
              = fallback_invocations (effects w) + 1
            \<and> (services_getCookies ck h = Inr cs \<longrightarrow>
                  reloads (effects (clearCookies ck pg w)) = reloads (effects w) + 1
                  \<and> last (effects (clearCookies ck pg w)) = Reload)"
  proof
    assume f: "primary_import ck = Inl e \<or> primary_getCookies ck h = Inl e"
    note c = cookie_removal_fallback [OF f, of w]
    show "fallback_invocations (effects (clearCookies ck pg w))
              = fallback_invocations (effects w) + 1
            \<and> (services_getCookies ck h = Inr cs \<longrightarrow>
                  reloads (effects (clearCookies ck pg w)) = reloads (effects w) + 1
                  \<and> last (effects (clearCookies ck pg w)) = Reload)"
      by (simp add: eff c fallback_invocations_simps reloads_simps
          split: sum.splits option.splits)
  qed
  have 2: "primary_import ck = Inr () \<and> primary_getCookies ck h = Inr cs \<longrightarrow>
            fallback_invocations (effects (clearCookies ck pg w))
              = fallback_invocations (effects w)
            \<and> reloads (effects (clearCookies ck pg w)) = reloads (effects w) + 1
            \<and> last (effects (clearCookies ck pg w)) = Reload"
  proof
    assume "primary_import ck = Inr () \<and> primary_getCookies ck h = Inr cs"
    then have p: "primary_import ck = Inr ()" "primary_getCookies ck h = Inr cs"
      by simp_all
    note c = cookie_removal_primary [OF p, of w]
    show "fallback_invocations (effects (clearCookies ck pg w))
              = fallback_invocations (effects w)
            \<and> reloads (effects (clearCookies ck pg w)) = reloads (effects w) + 1
            \<and> last (effects (clearCookies ck pg w)) = Reload"
      by (simp add: eff c fallback_invocations_simps reloads_simps)
  qed
  have 3: "fallback_invocations (effects (clearCookies ck pg w))
            \<le> fallback_invocations (effects w) + 1"
    using cookie_removal_at_most_once [of ck h w]
    by (simp add: eff fallback_invocations_simps split: option.splits)
  have 4: "panel w \<longrightarrow> \<not> isOpen (clearCookies ck pg w)"
    by (simp add: clearCookies_closes)
  have 5: "(primary_import ck = Inl e \<or> primary_getCookies ck h = Inl e)
            \<and> services_getCookies ck h = Inr cs \<longrightarrow>
            effects (clearCookies ck pg w)
              = effects w
                @ ImportCookieManager
                # (if primary_import ck = Inr () then [PrimaryGetCookies h] else [])
                @ FallbackGetCookies h
                # (if has_removeAllFromHost ck
                   then RemoveAllFromHost h
                        # (if removeAllFromHost ck = Inr () then [LogClearedAll h] else [])
                   else map FallbackRemove cs
                        @ [LogFallbackDone h
                             (length (filter (\<lambda>c. services_remove ck c = Inr ()) cs))
                             (length (filter (\<lambda>c. services_remove ck c \<noteq> Inr ()) cs))])
                @ [Reload]"
  proof
    assume a: "(primary_import ck = Inl e \<or> primary_getCookies ck h = Inl e)
            \<and> services_getCookies ck h = Inr cs"
    then have f: "primary_import ck = Inl e \<or> primary_getCookies ck h = Inl e"
      and s: "services_getCookies ck h = Inr cs" by simp_all
    have n: "fst (cookie_removal ck h w) = None"
      using cookie_removal_fallback(3) [OF f, of w] s by simp
    show "effects (clearCookies ck pg w)
              = effects w
                @ ImportCookieManager
                # (if primary_import ck = Inr () then [PrimaryGetCookies h] else [])
                @ FallbackGetCookies h
                # (if has_removeAllFromHost ck
                   then RemoveAllFromHost h
                        # (if removeAllFromHost ck = Inr () then [LogClearedAll h] else [])
                   else map FallbackRemove cs
                        @ [LogFallbackDone h
                             (length (filter (\<lambda>c. services_remove ck c = Inr ()) cs))
                             (length (filter (\<lambda>c. services_remove ck c \<noteq> Inr ()) cs))])
                @ [Reload]"
      using f s
      by (auto simp: eff n cookie_removal_trace fallback_removal_trace call_fields
          split: sum.splits)
  qed
  have 6: "primary_import ck = Inr () \<and> primary_getCookies ck h = Inr cs \<longrightarrow>
            effects (clearCookies ck pg w)
              = effects w
                @ [ImportCookieManager, PrimaryGetCookies h]
                @ map PrimaryRemove cs
                @ [LogPrimaryDone h (length (filter (\<lambda>c. primary_remove ck c = Inr ()) cs)),
                   Reload]"
  proof
    assume "primary_import ck = Inr () \<and> primary_getCookies ck h = Inr cs"
    then have p: "primary_import ck = Inr ()" "primary_getCookies ck h = Inr cs"
      by simp_all
    show "effects (clearCookies ck pg w)
              = effects w
                @ [ImportCookieManager, PrimaryGetCookies h]
                @ map PrimaryRemove cs
                @ [LogPrimaryDone h (length (filter (\<lambda>c. primary_remove ck c = Inr ()) cs)),
                   Reload]"
      by (simp add: eff cookie_removal_primary(3) [OF p] cookie_removal_trace p)
  qed
  have nin: "ImportCookieManager \<notin> set (map FallbackRemove xs)"
    "ImportCookieManager \<notin> set (map PrimaryRemove xs)"
    "PrimaryGetCookies h \<notin> set (map FallbackRemove xs)"
    "PrimaryGetCookies h \<notin> set (map PrimaryRemove xs)" for xs
    by auto
  have cnt: "count_list (map FallbackRemove xs) ImportCookieManager = 0"
    "count_list (map PrimaryRemove xs) ImportCookieManager = 0"
    "count_list (map FallbackRemove xs) (PrimaryGetCookies h) = 0"
    "count_list (map PrimaryRemove xs) (PrimaryGetCookies h) = 0" for xs
    using nin [of xs] by (simp_all only: count_list_0_iff not_False_eq_True)
  have 7: "count_list (effects (clearCookies ck pg w)) ImportCookieManager
            = count_list (effects w) ImportCookieManager + 1"
    by (simp add: eff cookie_removal_trace fallback_removal_trace call_fields cnt
        split: sum.splits option.splits)
  have 8: "count_list (effects (clearCookies ck pg w)) (PrimaryGetCookies h)
            \<le> count_list (effects w) (PrimaryGetCookies h) + 1"
    by (simp add: eff cookie_removal_trace fallback_removal_trace call_fields cnt
        split: sum.splits option.splits)
  have 9: "reloads (effects (clearCookies ck pg w)) \<le> reloads (effects w) + 1"
    by (simp add: eff cookie_removal_trace fallback_removal_trace call_fields reloads_simps
        split: sum.splits option.splits)
  show ?thesis by (intro conjI; fact)
qed

theorem cookie_fallback_single_tier_witness:
  "fallback_invocations (effects (clearCookies module_missing https_page open_world)) = 1
   \<and> reloads (effects (clearCookies module_missing https_page open_world)) = 1
   \<and> last (effects (clearCookies module_missing https_page open_world)) = Reload
   \<and> \<not> isOpen (clearCookies module_missing https_page open_world)
   \<and> effects (clearCookies module_missing https_page open_world)
       = [ImportCookieManager, FallbackGetCookies ''example.org'',
          RemoveAllFromHost ''example.org'', Reload]"
proof -
  have u: "currentURI https_page = Some \<lparr> scheme = ''https'', host = Inr ''example.org'' \<rparr>"
    "host \<lparr> scheme = ''https'', host = Inr ''example.org'' \<rparr> = Inr ''example.org''"
    "''example.org'' \<noteq> []"
    by (simp_all add: https_page_def)
  note t = cookie_fallback_single_tier [OF u, of module_missing HostError open_world
             "[''sid'', ''theme'']"]
  have f: "primary_import module_missing = Inl HostError
             \<or> primary_getCookies module_missing ''example.org'' = Inl HostError"
    by (simp add: module_missing_def)
  have s: "services_getCookies module_missing ''example.org'' = Inr [''sid'', ''theme'']"
    by (simp add: module_missing_def)
  have e: "fallback_invocations (effects open_world) = 0" "reloads (effects open_world) = 0"
    by (simp_all add: open_world_fields fallback_invocations_simps reloads_simps)
  have 1: "fallback_invocations (effects (clearCookies module_missing https_page open_world))
            = fallback_invocations (effects open_world) + 1"
    by (rule t [THEN conjunct1, rule_format, OF f, THEN conjunct1])
  have 2: "reloads (effects (clearCookies module_missing https_page open_world))
             = reloads (effects open_world) + 1
           \<and> last (effects (clearCookies module_missing https_page open_world)) = Reload"
    by (rule t [THEN conjunct1, rule_format, OF f, THEN conjunct2, rule_format, OF s])
  have 3: "\<not> isOpen (clearCookies module_missing https_page open_world)"
    by (rule t [THEN conjunct2, THEN conjunct2, THEN conjunct2, THEN conjunct1, rule_format,
                OF open_world_fields(1)])
  have 4: "effects (clearCookies module_missing https_page open_world)
       = [ImportCookieManager, FallbackGetCookies ''example.org'',
          RemoveAllFromHost ''example.org'', Reload]"
    using t [THEN conjunct2, THEN conjunct2, THEN conjunct2, THEN conjunct2, THEN conjunct1,
             rule_format, OF conjI [OF f s]]
    by (simp add: module_missing_def open_world_fields)
  show ?thesis using 1 2 3 4 e by simp
qed

text \<open>
  A click on an entry: with a policy and a browser action the popup is opened and neither
  the add-ons nor the rendered entries change; otherwise, when the add-on is found and the
  host call returns, the add-on is toggled in the host.
\<close>

lemma click_opens_popup:
  "getByID (ext hc) i = Inr True \<Longrightarrow> browserActionFor (ext hc) i = Inr True \<Longrightarrow>
     effects (openExtensionPopup hc i w) = effects w @ [OpenPopup i]
     \<and> addons (openExtensionPopup hc i w) = addons w
     \<and> document_panel (openExtensionPopup hc i w) = document_panel w"
  by (simp add: openExtensionPopup_def Let_def call_fields hidePanel_fields split: sum.splits)

lemma click_toggles_host:
  assumes "getByID (ext hc) i = Inr False
             \<or> (getByID (ext hc) i = Inr True \<and> browserActionFor (ext hc) i = Inr False)"
    and "\<not> lookup_throws hc" and "set_enabled hc = Inr ()"
    and "find (\<lambda>a. addon_id a = i) (addons w) = Some a"
  shows "addons (openExtensionPopup hc i w) = set_active i (\<not> isActive a) (addons w)"
  using assms
  by (auto simp: openExtensionPopup_def toggleExtensionState_def getAddonByID_def Let_def
      call_fields hidePanel_fields updateExtensionImageState_fields)

text \<open>
  On a host whose add-on objects are plain copies taken at lookup time, the second read
  of \<^verbatim>\<open>addon.isActive\<close> gives the state before the click, the spread keeps the name, and
  the entry is rewritten to the new state.
\<close>

lemma toggle_on_snapshot_host:
  "map_option container
       (document_panel (openExtensionPopup snapshot_host ''a@example.org'' open_world))
     = Some [Wrapper ''a@example.org''
               (Some \<lparr> src = ''chrome://mozapps/skin/extensions/extension.svg'',
                       tooltiptext = ''Enable Alpha'', enabled = ''false'' \<rparr>),
             Other ''add-extension-button'']"
  by (simp add: openExtensionPopup_def toggleExtensionState_def getAddonByID_def
      updateExtensionImageState_def spread_with_isActive_def snapshot_host_def
      working_host_def no_actions_def
      set_active_def getExtensionTooltip_def bool_toString_def ext_A_def
      open_world_fields open_world_document call_def hidePanel_fields Let_def)

text \<open>
  C5, evaluated at a click on the entry of the active extension \<open>ext_A\<close>, which has a
  policy and no browser action, on a host where every call succeeds and add-on objects
  are the wrappers of the \<^verbatim>\<open>AddonManager\<close>: they follow the add-on, and their properties are
  getters of the prototype. The extension is disabled in the host. The entry is then
  rewritten from the negation of \<^verbatim>\<open>addon.isActive\<close> as read after the awaited
  \<^verbatim>\<open>disable()\<close>, which is the state before the click, and from a spread copy that has lost
  the name: the entry of the extension just disabled says \<^verbatim>\<open>enabled="true"\<close> and
  \<^verbatim>\<open>Disable Extension\<close>. No reconciliation pass runs in the handler.
\<close>

theorem toggle_renders_previous_state:
  "map isActive (addons (openExtensionPopup wrapper_host ''a@example.org'' open_world))
     = [False]
   \<and> effects (openExtensionPopup wrapper_host ''a@example.org'' open_world)
     = [Disable ''a@example.org'']
   \<and> map_option container
       (document_panel (openExtensionPopup wrapper_host ''a@example.org'' open_world))
     = Some [Wrapper ''a@example.org''
               (Some \<lparr> src = ''chrome://mozapps/skin/extensions/extension.svg'',
                       tooltiptext = ''Disable Extension'', enabled = ''true'' \<rparr>),
             Other ''add-extension-button'']"
  by (simp add: openExtensionPopup_def toggleExtensionState_def getAddonByID_def
      updateExtensionImageState_def spread_with_isActive_def wrapper_host_def
      working_host_def installed_policies_def set_active_def
      getExtensionTooltip_def bool_toString_def ext_A_def
      open_world_fields open_world_document call_def hidePanel_fields Let_def)

end
